theory Spec2Isabelle
  imports Main "HOL-Library.Product_Lexorder" "HOL-Library.Multiset"
begin

section \<open>The game-state and buzzer core of metro-xmas\<close>

text \<open>
  This theory embeds the request handlers of \<^verbatim>\<open>backend/src/server.js\<close> that mutate the
  game state, the buzz queue, the player table and the question catalog, together with
  the state accessors of \<^verbatim>\<open>backend/src/db.js\<close>. Every handler is a function from the
  request's fields and the database contents to a response and the new database
  contents; an early \<^verbatim>\<open>return res.status(...)\<close> is an error value paired with
  the database as it stands at that point.
  The sources also hold a second, longer copy of the server; the three handlers of that
  copy that the claims need are embedded after the handlers of server.js.

  Modelling decisions, all of them visible in the definitions below:
  \<^item> SQLite tables are lists of rows in insertion order; a \<^verbatim>\<open>PRIMARY KEY\<close> violation on
    insert is the exception the driver throws, which Express turns into status 500.
  \<^item> The values read from the environment are arguments: the clock
    (\<^verbatim>\<open>new Date().toISOString()\<close>) is a natural number whose order is the order of
    the ISO strings, and \<^verbatim>\<open>uuidv4()\<close> is a string handed in by the caller.
  \<^item> Request fields are typed: an absent field is \<open>None\<close>, and JavaScript truthiness
    of a string-or-null is \<open>truthy\<close>. Point values and scores are integers
    (\<^verbatim>\<open>Math.trunc\<close> is then the identity). Text is ASCII.
  \<^item> Socket fan-out (\<^verbatim>\<open>emit\<close>) and the activity log (\<^verbatim>\<open>logEvent\<close>) touch neither the
    game state, the queue, the players nor the catalog, and are left out.
\<close>

subsection \<open>Tables\<close>

datatype status = Waiting | Active | Ended

text \<open>The single row of \<^verbatim>\<open>game_state\<close>, with the columns \<^verbatim>\<open>getGameState\<close> selects.\<close>

record game_state =
  status :: status
  current_question_id :: "string option"
  current_category :: "string option"
  current_points :: "int option"
  current_is_placeholder :: bool
  current_clue_text :: "string option"
  current_answer_text :: "string option"
  turn_player_id :: "string option"
  buzzer_locked :: bool
  last_buzz_player_id :: "string option"
  last_buzz_time :: "nat option"
  question_reading :: bool

record player =
  p_id :: string
  p_name :: string
  p_slug :: "string option"
  p_score :: int
  p_created_at :: nat

record question =
  q_id :: string
  q_player_id :: string
  q_question_text :: string
  q_answer :: string
  q_category :: "string option"
  q_points :: "int option"
  q_selected_for_game :: bool
  q_used_in_game :: bool
  q_created_at :: nat

record buzz_entry =
  b_id :: string
  b_player_id :: string
  b_buzz_time :: nat

text \<open>
  An entry of \<^verbatim>\<open>default_questions.json\<close>. The file itself is not part of the sources at
  hand, so the pack is an argument \<open>dqs\<close> of every function that reads it.
\<close>

record default_question =
  dq_category :: string
  dq_points :: int
  dq_questionText :: string
  dq_answer :: string

record sys =
  game :: game_state
  buzz_queue :: "buzz_entry list"
  players :: "player list"
  questions :: "question list"

datatype error =
    BadRequest string
  | Forbidden string
  | NotFound string
  | Conflict string
  | InternalServerError

text \<open>
  The row inserted by \<^verbatim>\<open>INSERT INTO game_state (id) VALUES (1)\<close>: every column takes
  its declared default.
\<close>

definition init_game :: game_state where
  "init_game =
     \<lparr>status = Waiting, current_question_id = None, current_category = None,
      current_points = None, current_is_placeholder = False, current_clue_text = None,
      current_answer_text = None, turn_player_id = None, buzzer_locked = False,
      last_buzz_player_id = None, last_buzz_time = None, question_reading = False\<rparr>"

definition init_sys :: "player list \<Rightarrow> question list \<Rightarrow> sys" where
  "init_sys ps qs = \<lparr>game = init_game, buzz_queue = [], players = ps, questions = qs\<rparr>"

subsection \<open>JavaScript helpers\<close>

definition truthy :: "string option \<Rightarrow> bool" where
  "truthy v = (case v of None \<Rightarrow> False | Some s \<Rightarrow> s \<noteq> [])"

definition is_space :: "char \<Rightarrow> bool" where
  "is_space c = (c \<in> set [CHR 0x09, CHR 0x0A, CHR 0x0B, CHR 0x0C, CHR 0x0D, CHR 0x20])"

definition js_trim :: "string \<Rightarrow> string" where
  "js_trim s = rev (dropWhile is_space (rev (dropWhile is_space s)))"

definition lower_char :: "char \<Rightarrow> char" where
  "lower_char c =
     (case map_of (zip ''ABCDEFGHIJKLMNOPQRSTUVWXYZ'' ''abcdefghijklmnopqrstuvwxyz'') c of
        None \<Rightarrow> c
      | Some l \<Rightarrow> l)"

definition js_toLowerCase :: "string \<Rightarrow> string" where
  "js_toLowerCase s = map lower_char s"

text \<open>\<^verbatim>\<open>x || 'N/A'\<close> on a string.\<close>

definition or_NA :: "string \<Rightarrow> string" where
  "or_NA t = (if t = [] then ''N/A'' else t)"

subsection \<open>State store (db.js)\<close>

definition getGameState :: "sys \<Rightarrow> game_state" where
  "getGameState s = game s"

text \<open>
  \<^verbatim>\<open>updateGameState(patch)\<close> writes the patched columns and returns the row read back;
  the patch is the function that sets those columns.
\<close>

definition updateGameState :: "(game_state \<Rightarrow> game_state) \<Rightarrow> sys \<Rightarrow> game_state \<times> sys" where
  "updateGameState patch s = (let g = patch (game s) in (g, s\<lparr>game := g\<rparr>))"

subsection \<open>Buzz queue\<close>

definition clearBuzzQueue :: "sys \<Rightarrow> sys" where
  "clearBuzzQueue s = s\<lparr>buzz_queue := []\<rparr>"

text \<open>
  \<^verbatim>\<open>listBuzzQueue\<close>: the queue joined with the players, ascending by buzz time. Only
  the queue columns of the joined rows are kept.
\<close>

definition listBuzzQueue :: "sys \<Rightarrow> buzz_entry list" where
  "listBuzzQueue s =
     sort_key b_buzz_time
       (filter (\<lambda>b. b_player_id b \<in> set (map p_id (players s))) (buzz_queue s))"

record enqueue_result =
  queued :: bool
  reason :: "string option"

definition enqueueBuzz :: "string \<Rightarrow> string \<Rightarrow> nat \<Rightarrow> sys \<Rightarrow> (error + enqueue_result) \<times> sys" where
  "enqueueBuzz uuid playerId buzzTime s =
     (if list_ex (\<lambda>b. b_player_id b = playerId) (buzz_queue s)
      then (Inr \<lparr>queued = False, reason = Some ''already_queued''\<rparr>, s)
      else if uuid \<in> set (map b_id (buzz_queue s)) then (Inl InternalServerError, s)
      else (Inr \<lparr>queued = True, reason = None\<rparr>,
            s\<lparr>buzz_queue :=
                buzz_queue s @ [\<lparr>b_id = uuid, b_player_id = playerId, b_buzz_time = buzzTime\<rparr>]\<rparr>))"

text \<open>
  \<^verbatim>\<open>ORDER BY buzz_time ASC LIMIT 1\<close>: the first row, in table order, among those with
  the least buzz time.
\<close>

fun earliest :: "buzz_entry list \<Rightarrow> buzz_entry option" where
  "earliest [] = None"
| "earliest (b # bs) =
     (case earliest bs of
        None \<Rightarrow> Some b
      | Some m \<Rightarrow> if b_buzz_time b \<le> b_buzz_time m then Some b else Some m)"

definition dequeueNextBuzz :: "sys \<Rightarrow> buzz_entry option \<times> sys" where
  "dequeueNextBuzz s =
     (case earliest (buzz_queue s) of
        None \<Rightarrow> (None, s)
      | Some next \<Rightarrow>
          (Some next, s\<lparr>buzz_queue := filter (\<lambda>b. b_id b \<noteq> b_id next) (buzz_queue s)\<rparr>))"

subsection \<open>Default questions\<close>

text \<open>
  \<^verbatim>\<open>findDefaultQuestion(category, points)\<close>: \<^verbatim>\<open>Array.prototype.find\<close> is the first
  entry of the pack that satisfies the test.
\<close>

definition findDefaultQuestion ::
    "default_question list \<Rightarrow> string option \<Rightarrow> int option \<Rightarrow> default_question option" where
  "findDefaultQuestion dqs category points =
     (case (category, points) of
        (Some c, Some pts) \<Rightarrow>
          if c = [] then None
          else (let cat = js_toLowerCase (js_trim c)
                in find (\<lambda>q. js_toLowerCase (js_trim (dq_category q)) = cat \<and> dq_points q = pts) dqs)
      | _ \<Rightarrow> None)"

text \<open>
  \<^verbatim>\<open>ensureSystemPlayer\<close>: the player with slug \<^verbatim>\<open>house\<close>, inserted when missing. The
  insert leaves \<^verbatim>\<open>score\<close> to its default 0.
\<close>

definition ensureSystemPlayer :: "string \<Rightarrow> nat \<Rightarrow> sys \<Rightarrow> (error + player) \<times> sys" where
  "ensureSystemPlayer uuid now s =
     (case find (\<lambda>p. p_slug p = Some ''house'') (players s) of
        Some existing \<Rightarrow> (Inr existing, s)
      | None \<Rightarrow>
          if uuid \<in> set (map p_id (players s)) then (Inl InternalServerError, s)
          else (let p = \<lparr>p_id = uuid, p_name = ''House Questions'', p_slug = Some ''house'',
                         p_score = 0, p_created_at = now\<rparr>
                in (Inr p, s\<lparr>players := players s @ [p]\<rparr>)))"

text \<open>
  The loop of \<^verbatim>\<open>seedDefaultQuestions\<close>, run inside one transaction: \<open>None\<close> is the
  exception of a failed insert, which rolls every insert of the loop back. The \<open>k\<close>-th
  inserted row takes the id \<open>uuids k\<close>.
\<close>

fun seed_rows ::
    "string \<Rightarrow> bool \<Rightarrow> nat \<Rightarrow> (nat \<Rightarrow> string) \<Rightarrow> nat \<Rightarrow> default_question list
      \<Rightarrow> question list \<Rightarrow> question list option" where
  "seed_rows sid selectForGame now uuids k [] qs = Some qs"
| "seed_rows sid selectForGame now uuids k (d # ds) qs =
     (let cat = (if dq_category d = [] then None else Some (js_trim (dq_category d)));
          pts = dq_points d;
          qText = js_trim (dq_questionText d);
          ans = js_trim (dq_answer d)
      in if qText = [] \<or> ans = [] \<or> \<not> truthy cat \<or> pts = 0
         then seed_rows sid selectForGame now uuids k ds qs
         else if list_ex (\<lambda>q. q_player_id q = sid \<and> q_question_text q = qText \<and> q_answer q = ans
                               \<and> q_category q = cat \<and> q_points q = Some pts) qs
         then seed_rows sid selectForGame now uuids k ds qs
         else if uuids k \<in> set (map q_id qs) then None
         else seed_rows sid selectForGame now uuids (Suc k) ds
                (qs @ [\<lparr>q_id = uuids k, q_player_id = sid, q_question_text = qText,
                        q_answer = ans, q_category = cat, q_points = Some pts,
                        q_selected_for_game = selectForGame, q_used_in_game = False,
                        q_created_at = now\<rparr>]))"

text \<open>
  \<^verbatim>\<open>seedDefaultQuestions\<close>: \<open>uuids 0\<close> is the id of a new system player, the inserted
  questions take \<open>uuids 1\<close>, \<open>uuids 2\<close>, and so on.
\<close>

definition seedDefaultQuestions ::
    "default_question list \<Rightarrow> bool \<Rightarrow> nat \<Rightarrow> (nat \<Rightarrow> string) \<Rightarrow> sys \<Rightarrow> (error + unit) \<times> sys" where
  "seedDefaultQuestions dqs selectForGame now uuids s =
     (case ensureSystemPlayer (uuids 0) now s of
        (Inl e, s1) \<Rightarrow> (Inl e, s1)
      | (Inr system, s1) \<Rightarrow>
          (case seed_rows (p_id system) selectForGame now uuids 1 dqs (questions s1) of
             None \<Rightarrow> (Inl InternalServerError, s1)
           | Some qs \<Rightarrow> (Inr (), s1\<lparr>questions := qs\<rparr>)))"

subsection \<open>Turn and card-selection gate\<close>

definition clueActive :: "game_state \<Rightarrow> bool" where
  "clueActive g = (truthy (current_question_id g) \<or> current_is_placeholder g)"

record select_req =
  sc_questionId :: "string option"
  sc_category :: "string option"
  sc_points :: "int option"
  sc_force :: bool
  sc_pickerPlayerId :: "string option"

text \<open>\<^verbatim>\<open>POST /api/game/select-card\<close> (server.js, lines 643 to 726).\<close>

definition selectCard :: "default_question list \<Rightarrow> select_req \<Rightarrow> sys \<Rightarrow> (error + game_state) \<times> sys" where
  "selectCard dqs r s =
     (let pts = sc_points r;
          cat = (case sc_category r of
                   None \<Rightarrow> None
                 | Some c \<Rightarrow> if c = [] then None else Some (js_trim c));
          state0 = getGameState s
      in if clueActive state0 \<and> \<not> sc_force r
         then (Inl (Conflict ''A clue is already active''), s)
         else if truthy (turn_player_id state0) \<and> \<not> sc_force r
                 \<and> (\<not> truthy (sc_pickerPlayerId r) \<or> sc_pickerPlayerId r \<noteq> turn_player_id state0)
         then (Inl (Forbidden ''Not your turn''), s)
         else if \<not> truthy (sc_questionId r)
         then (let s1 = clearBuzzQueue s;
                   fallback = findDefaultQuestion dqs cat pts;
                   clue = (case fallback of None \<Rightarrow> ''N/A'' | Some f \<Rightarrow> or_NA (dq_questionText f));
                   answer = (case fallback of None \<Rightarrow> ''N/A'' | Some f \<Rightarrow> or_NA (dq_answer f));
                   (state, s2) = updateGameState
                     (\<lambda>g. g\<lparr>current_question_id := None, current_category := cat,
                            current_points := pts, current_is_placeholder := True,
                            current_clue_text := Some clue, current_answer_text := Some answer,
                            buzzer_locked := False, last_buzz_player_id := None,
                            last_buzz_time := None\<rparr>) s1
               in (Inr state, s2))
         else (case find (\<lambda>q. Some (q_id q) = sc_questionId r) (questions s) of
                 None \<Rightarrow> (Inl (NotFound ''Question not found''), s)
               | Some q \<Rightarrow>
                   if \<not> sc_force r \<and> \<not> q_selected_for_game q
                   then (Inl (BadRequest ''Question not selected''), s)
                   else if \<not> sc_force r \<and> q_used_in_game q
                   then (Inl (Conflict ''Card already used''), s)
                   else (let s1 = s\<lparr>questions :=
                                     map (\<lambda>x. if Some (q_id x) = sc_questionId r
                                               then x\<lparr>q_used_in_game := True\<rparr> else x)
                                       (questions s)\<rparr>;
                             s2 = clearBuzzQueue s1;
                             (state, s3) = updateGameState
                               (\<lambda>g. g\<lparr>current_question_id := sc_questionId r,
                                      current_category :=
                                        (if truthy (q_category q) then q_category q else cat),
                                      current_points :=
                                        (case q_points q of Some v \<Rightarrow> Some v | None \<Rightarrow> pts),
                                      current_is_placeholder := False,
                                      current_clue_text := None, current_answer_text := None,
                                      buzzer_locked := False, last_buzz_player_id := None,
                                      last_buzz_time := None\<rparr>) s2
                         in (Inr state, s3))))"

subsection \<open>Game lifecycle\<close>

text \<open>\<^verbatim>\<open>POST /api/game/reset-board\<close> (lines 728 to 745).\<close>

definition resetBoard :: "sys \<Rightarrow> (error + game_state) \<times> sys" where
  "resetBoard s =
     (let s1 = s\<lparr>questions := map (\<lambda>q. q\<lparr>q_used_in_game := False\<rparr>) (questions s)\<rparr>;
          (state, s2) = updateGameState
            (\<lambda>g. g\<lparr>current_question_id := None, current_category := None,
                   current_points := None, current_is_placeholder := False,
                   current_clue_text := None, current_answer_text := None,
                   buzzer_locked := False, last_buzz_player_id := None,
                   last_buzz_time := None\<rparr>) s1
      in (Inr state, s2))"

text \<open>\<^verbatim>\<open>POST /api/game/start\<close> (lines 751 to 784).\<close>

definition startGame ::
    "default_question list \<Rightarrow> nat \<Rightarrow> (nat \<Rightarrow> string) \<Rightarrow> sys \<Rightarrow> (error + game_state) \<times> sys" where
  "startGame dqs now uuids s =
     (let selectedCount = length (filter q_selected_for_game (questions s));
          (seeded, s1) = (if selectedCount = 0 then seedDefaultQuestions dqs True now uuids s
                          else (Inr (), s))
      in case seeded of
           Inl e \<Rightarrow> (Inl e, s1)
         | Inr _ \<Rightarrow>
             (let s2 = s1\<lparr>questions := map (\<lambda>q. q\<lparr>q_used_in_game := False\<rparr>) (questions s1)\<rparr>;
                  (state, s3) = updateGameState
                    (\<lambda>g. g\<lparr>status := Active, current_question_id := None,
                           current_category := None, current_points := None,
                           current_is_placeholder := False, current_clue_text := None,
                           current_answer_text := None, turn_player_id := None,
                           buzzer_locked := False, last_buzz_player_id := None,
                           last_buzz_time := None\<rparr>) s2
              in (Inr state, clearBuzzQueue s3)))"

text \<open>\<^verbatim>\<open>POST /api/game/end\<close> (lines 786 to 796).\<close>

definition endGame :: "sys \<Rightarrow> (error + game_state) \<times> sys" where
  "endGame s =
     (let (state, s1) = updateGameState (\<lambda>g. g\<lparr>status := Ended, buzzer_locked := True\<rparr>) s
      in (Inr state, clearBuzzQueue s1))"

text \<open>\<^verbatim>\<open>POST /api/game/reset\<close> (lines 798 to 817).\<close>

definition resetGame :: "sys \<Rightarrow> (error + game_state) \<times> sys" where
  "resetGame s =
     (let (state, s1) = updateGameState
            (\<lambda>g. g\<lparr>status := Waiting, current_question_id := None,
                   current_category := None, current_points := None,
                   current_is_placeholder := False, current_clue_text := None,
                   current_answer_text := None, turn_player_id := None,
                   buzzer_locked := False, last_buzz_player_id := None,
                   last_buzz_time := None\<rparr>) s
      in (Inr state, clearBuzzQueue s1))"

text \<open>\<^verbatim>\<open>POST /api/game/unlock-buzzer\<close> (lines 837 to 847).\<close>

definition unlockBuzzer :: "sys \<Rightarrow> (error + game_state) \<times> sys" where
  "unlockBuzzer s =
     (let (state, s1) = updateGameState
            (\<lambda>g. g\<lparr>buzzer_locked := False, last_buzz_player_id := None,
                   last_buzz_time := None\<rparr>) s
      in (Inr state, clearBuzzQueue s1))"

subsection \<open>Buzzer arbitration\<close>

datatype buzz_response =
    Queue_Response bool "string option" "nat option"
  | Lock_Response game_state

text \<open>
  \<^verbatim>\<open>POST /api/game/buzz\<close> (lines 849 to 904). \<open>Queue_Response queued reason position\<close>
  is the JSON answer of the locked branch, \<open>Lock_Response state\<close> the answer of the
  first buzz.
\<close>

definition buzz :: "string option \<Rightarrow> nat \<Rightarrow> string \<Rightarrow> sys \<Rightarrow> (error + buzz_response) \<times> sys" where
  "buzz playerId now uuid s =
     (case playerId of
        None \<Rightarrow> (Inl (BadRequest ''playerId is required''), s)
      | Some pid \<Rightarrow>
          if pid = [] then (Inl (BadRequest ''playerId is required''), s)
          else (case find (\<lambda>p. p_id p = pid) (players s) of
                  None \<Rightarrow> (Inl (NotFound ''Player not found''), s)
                | Some player \<Rightarrow>
                    (let state = getGameState s
                     in if status state \<noteq> Active
                        then (Inl (BadRequest ''Game is not active''), s)
                        else if \<not> clueActive state
                        then (Inl (BadRequest ''No active clue''), s)
                        else if buzzer_locked state
                        then (if last_buzz_player_id state = Some pid
                              then (Inr (Queue_Response False (Some ''already_current'') None), s)
                              else (case enqueueBuzz uuid pid now s of
                                      (Inl e, s1) \<Rightarrow> (Inl e, s1)
                                    | (Inr r, s1) \<Rightarrow>
                                        (Inr (Queue_Response (queued r) (reason r)
                                                (Some (length (listBuzzQueue s1)))), s1)))
                        else (let (updated, s1) = updateGameState
                                    (\<lambda>g. g\<lparr>buzzer_locked := True,
                                           last_buzz_player_id := Some pid,
                                           last_buzz_time := Some now\<rparr>) s
                              in (Inr (Lock_Response updated), s1)))))"

text \<open>
  The point value \<^verbatim>\<open>delta\<close> of the active clue as \<^verbatim>\<open>resolve-current\<close> computes it
  (lines 917 to 928): the stored points of a placeholder, the catalog row's points of a
  real question, 0 for a missing number, and the 404 answer when the catalog row is gone.
\<close>

definition resolve_delta :: "sys \<Rightarrow> error + int" where
  "resolve_delta s =
     (let state = getGameState s
      in if current_is_placeholder state
         then Inr (case current_points state of Some v \<Rightarrow> v | None \<Rightarrow> 0)
         else (case find (\<lambda>q. Some (q_id q) = current_question_id state) (questions s) of
                 None \<Rightarrow> Inl (NotFound ''Question not found'')
               | Some question \<Rightarrow> Inr (case q_points question of Some v \<Rightarrow> v | None \<Rightarrow> 0)))"

text \<open>\<^verbatim>\<open>UPDATE players SET score = score + ? WHERE id = ?\<close>.\<close>

definition add_score :: "int \<Rightarrow> string \<Rightarrow> sys \<Rightarrow> sys" where
  "add_score delta playerId s =
     s\<lparr>players := map (\<lambda>p. if p_id p = playerId then p\<lparr>p_score := p_score p + delta\<rparr> else p)
                      (players s)\<rparr>"

text \<open>\<^verbatim>\<open>SELECT ... FROM players ORDER BY score DESC, created_at ASC\<close>.\<close>

definition scoreboard :: "sys \<Rightarrow> player list" where
  "scoreboard s = sort_key (\<lambda>p. (- p_score p, p_created_at p)) (players s)"

text \<open>
  \<^verbatim>\<open>POST /api/admin/resolve-current\<close> (lines 906 to 1007). The field \<^verbatim>\<open>correct\<close> is
  \<open>None\<close> when the request carries no boolean there.
\<close>

definition resolveCurrent ::
    "string option \<Rightarrow> bool option \<Rightarrow> nat \<Rightarrow> sys \<Rightarrow> (error + game_state \<times> player list) \<times> sys" where
  "resolveCurrent playerId correct nextNow s =
     (case (playerId, correct) of
        (Some pid, Some c) \<Rightarrow>
          if pid = [] then (Inl (BadRequest ''playerId and correct are required''), s)
          else (let state = getGameState s
                in if \<not> truthy (current_question_id state) \<and> \<not> current_is_placeholder state
                   then (Inl (BadRequest ''No current question''), s)
                   else (case resolve_delta s of
                           Inl e \<Rightarrow> (Inl e, s)
                         | Inr delta \<Rightarrow>
                             (let (updatedState, s') =
                                (if c
                                 then updateGameState
                                        (\<lambda>g. g\<lparr>current_question_id := None,
                                               current_category := None,
                                               current_points := None,
                                               current_is_placeholder := False,
                                               current_clue_text := None,
                                               current_answer_text := None,
                                               turn_player_id := Some pid,
                                               buzzer_locked := False,
                                               last_buzz_player_id := None,
                                               last_buzz_time := None\<rparr>)
                                        (clearBuzzQueue (add_score delta pid s))
                                 else (case dequeueNextBuzz s of
                                         (Some next, s1) \<Rightarrow>
                                           updateGameState
                                             (\<lambda>g. g\<lparr>current_question_id := current_question_id state,
                                                    current_category := current_category state,
                                                    current_points := current_points state,
                                                    current_is_placeholder := current_is_placeholder state,
                                                    current_clue_text := current_clue_text state,
                                                    current_answer_text := current_answer_text state,
                                                    buzzer_locked := True,
                                                    last_buzz_player_id := Some (b_player_id next),
                                                    last_buzz_time := Some nextNow\<rparr>) s1
                                       | (None, s1) \<Rightarrow>
                                           updateGameState
                                             (\<lambda>g. g\<lparr>current_question_id := current_question_id state,
                                                    current_category := current_category state,
                                                    current_points := current_points state,
                                                    current_is_placeholder := current_is_placeholder state,
                                                    current_clue_text := current_clue_text state,
                                                    current_answer_text := current_answer_text state,
                                                    buzzer_locked := False,
                                                    last_buzz_player_id := None,
                                                    last_buzz_time := None\<rparr>) s1))
                              in (Inr (updatedState, scoreboard s'), s'))))
      | _ \<Rightarrow> (Inl (BadRequest ''playerId and correct are required''), s))"

subsection \<open>Player removal\<close>

text \<open>
  \<^verbatim>\<open>DELETE /api/admin/players/:id\<close> (lines 549 to 586). The patch is applied only when
  it has a key, and applying an empty patch would change nothing either.
\<close>

definition deletePlayer :: "string \<Rightarrow> sys \<Rightarrow> (error + unit) \<times> sys" where
  "deletePlayer ident s =
     (case find (\<lambda>p. p_id p = ident) (players s) of
        None \<Rightarrow> (Inl (NotFound ''Player not found''), s)
      | Some player \<Rightarrow>
          (let s1 = s\<lparr>questions := filter (\<lambda>q. q_player_id q \<noteq> ident) (questions s)\<rparr>;
               s2 = s1\<lparr>buzz_queue := filter (\<lambda>b. b_player_id b \<noteq> ident) (buzz_queue s1)\<rparr>;
               state = getGameState s2;
               patch_turn = (\<lambda>g. if turn_player_id state = Some ident
                                  then g\<lparr>turn_player_id := None\<rparr> else g);
               patch_buzz = (\<lambda>g. if last_buzz_player_id state = Some ident
                                  then g\<lparr>buzzer_locked := False, last_buzz_player_id := None,
                                         last_buzz_time := None\<rparr>
                                  else g);
               (updatedState, s3) = updateGameState (\<lambda>g. patch_buzz (patch_turn g)) s2;
               s4 = s3\<lparr>players := filter (\<lambda>p. p_id p \<noteq> ident) (players s3)\<rparr>
           in (Inr (), s4)))"

subsection \<open>Reachable states\<close>

text \<open>
  The states the core operations produce from a fresh game row and an empty queue, over
  any roster and catalog. A rejected request is a step too: it leaves the state as it is.
\<close>

inductive reachable :: "default_question list \<Rightarrow> sys \<Rightarrow> bool" for dqs :: "default_question list" where
  r_init: "reachable dqs (init_sys ps qs)"
| r_selectCard: "reachable dqs s \<Longrightarrow> reachable dqs (snd (selectCard dqs r s))"
| r_buzz: "reachable dqs s \<Longrightarrow> reachable dqs (snd (buzz playerId now uuid s))"
| r_resolveCurrent: "reachable dqs s \<Longrightarrow> reachable dqs (snd (resolveCurrent playerId correct now s))"
| r_startGame: "reachable dqs s \<Longrightarrow> reachable dqs (snd (startGame dqs now uuids s))"
| r_endGame: "reachable dqs s \<Longrightarrow> reachable dqs (snd (endGame s))"
| r_resetGame: "reachable dqs s \<Longrightarrow> reachable dqs (snd (resetGame s))"
| r_resetBoard: "reachable dqs s \<Longrightarrow> reachable dqs (snd (resetBoard s))"
| r_unlockBuzzer: "reachable dqs s \<Longrightarrow> reachable dqs (snd (unlockBuzzer s))"
| r_deletePlayer: "reachable dqs s \<Longrightarrow> reachable dqs (snd (deletePlayer ident s))"

subsection \<open>The second copy of the server\<close>

text \<open>
  The sources hold a second, longer copy of server.js, reproduced after the project
  summary. Among the handlers above it differs in three places: select-card also patches
  \<^verbatim>\<open>question_reading: 1\<close> when it activates a real question, the buzz handler has a
  reading gate, and the wrong branch of resolve-current takes the clue's value off the
  player's score. It also has the handler that sets and clears the reading flag.
  server.js itself never writes \<^verbatim>\<open>question_reading\<close> and takes no points for a wrong
  answer, so the reading window of C2 and the penalty of C3 exist in this copy only, and
  the two claims are settled on its handlers, embedded here under the suffix \<open>rev2\<close>.
\<close>

text \<open>
  \<^verbatim>\<open>POST /api/game/set-question-reading\<close>. The field \<^verbatim>\<open>reading\<close> is \<open>None\<close> when the
  request carries no boolean there.
\<close>

definition setQuestionReading :: "bool option \<Rightarrow> sys \<Rightarrow> (error + game_state) \<times> sys" where
  "setQuestionReading reading s =
     (case reading of
        None \<Rightarrow> (Inl (BadRequest ''reading must be boolean''), s)
      | Some b \<Rightarrow>
          (let (state, s1) = updateGameState (\<lambda>g. g\<lparr>question_reading := b\<rparr>) s
           in (Inr state, s1)))"

text \<open>\<^verbatim>\<open>POST /api/game/buzz\<close> of the second copy: the handler of server.js with the reading gate.\<close>

definition buzz_rev2 ::
    "string option \<Rightarrow> nat \<Rightarrow> string \<Rightarrow> sys \<Rightarrow> (error + buzz_response) \<times> sys" where
  "buzz_rev2 playerId now uuid s =
     (case playerId of
        None \<Rightarrow> (Inl (BadRequest ''playerId is required''), s)
      | Some pid \<Rightarrow>
          if pid = [] then (Inl (BadRequest ''playerId is required''), s)
          else (case find (\<lambda>p. p_id p = pid) (players s) of
                  None \<Rightarrow> (Inl (NotFound ''Player not found''), s)
                | Some player \<Rightarrow>
                    (let state = getGameState s
                     in if status state \<noteq> Active
                        then (Inl (BadRequest ''Game is not active''), s)
                        else if \<not> clueActive state
                        then (Inl (BadRequest ''No active clue''), s)
                        else if question_reading state
                        then (Inl (BadRequest ''Question is still being read''), s)
                        else if buzzer_locked state
                        then (if last_buzz_player_id state = Some pid
                              then (Inr (Queue_Response False (Some ''already_current'') None), s)
                              else (case enqueueBuzz uuid pid now s of
                                      (Inl e, s1) \<Rightarrow> (Inl e, s1)
                                    | (Inr r, s1) \<Rightarrow>
                                        (Inr (Queue_Response (queued r) (reason r)
                                                (Some (length (listBuzzQueue s1)))), s1)))
                        else (let (updated, s1) = updateGameState
                                    (\<lambda>g. g\<lparr>buzzer_locked := True,
                                           last_buzz_player_id := Some pid,
                                           last_buzz_time := Some now\<rparr>) s
                              in (Inr (Lock_Response updated), s1)))))"

text \<open>
  \<^verbatim>\<open>POST /api/admin/resolve-current\<close> of the second copy: the handler of server.js with
  \<^verbatim>\<open>if (delta) UPDATE players SET score = score - ? WHERE id = ?\<close> at the head of the
  wrong branch.
\<close>

definition resolveCurrent_rev2 ::
    "string option \<Rightarrow> bool option \<Rightarrow> nat \<Rightarrow> sys \<Rightarrow> (error + game_state \<times> player list) \<times> sys" where
  "resolveCurrent_rev2 playerId correct nextNow s =
     (case (playerId, correct) of
        (Some pid, Some c) \<Rightarrow>
          if pid = [] then (Inl (BadRequest ''playerId and correct are required''), s)
          else (let state = getGameState s
                in if \<not> truthy (current_question_id state) \<and> \<not> current_is_placeholder state
                   then (Inl (BadRequest ''No current question''), s)
                   else (case resolve_delta s of
                           Inl e \<Rightarrow> (Inl e, s)
                         | Inr delta \<Rightarrow>
                             (let (updatedState, s') =
                                (if c
                                 then updateGameState
                                        (\<lambda>g. g\<lparr>current_question_id := None,
                                               current_category := None,
                                               current_points := None,
                                               current_is_placeholder := False,
                                               current_clue_text := None,
                                               current_answer_text := None,
                                               turn_player_id := Some pid,
                                               buzzer_locked := False,
                                               last_buzz_player_id := None,
                                               last_buzz_time := None\<rparr>)
                                        (clearBuzzQueue (add_score delta pid s))
                                 else (case dequeueNextBuzz
                                              (if delta \<noteq> 0 then add_score (- delta) pid s else s) of
                                         (Some next, s1) \<Rightarrow>
                                           updateGameState
                                             (\<lambda>g. g\<lparr>current_question_id := current_question_id state,
                                                    current_category := current_category state,
                                                    current_points := current_points state,
                                                    current_is_placeholder := current_is_placeholder state,
                                                    current_clue_text := current_clue_text state,
                                                    current_answer_text := current_answer_text state,
                                                    buzzer_locked := True,
                                                    last_buzz_player_id := Some (b_player_id next),
                                                    last_buzz_time := Some nextNow\<rparr>) s1
                                       | (None, s1) \<Rightarrow>
                                           updateGameState
                                             (\<lambda>g. g\<lparr>current_question_id := current_question_id state,
                                                    current_category := current_category state,
                                                    current_points := current_points state,
                                                    current_is_placeholder := current_is_placeholder state,
                                                    current_clue_text := current_clue_text state,
                                                    current_answer_text := current_answer_text state,
                                                    buzzer_locked := False,
                                                    last_buzz_player_id := None,
                                                    last_buzz_time := None\<rparr>) s1))
                              in (Inr (updatedState, scoreboard s'), s'))))
      | _ \<Rightarrow> (Inl (BadRequest ''playerId and correct are required''), s))"

subsection \<open>Notions the claims are stated with\<close>


text \<open>
  The order of the scoreboard: higher score first, and among equal scores the earlier
  registration first.
\<close>

definition score_order :: "player \<Rightarrow> player \<Rightarrow> bool" where
  "score_order p q =
     (p_score q < p_score p \<or> (p_score p = p_score q \<and> p_created_at p \<le> p_created_at q))"

text \<open>
  A tile that select-card accepts once the conflict and turn checks are passed without
  \<^verbatim>\<open>force\<close>: an empty tile, or a catalog row that is selected for the game and unused.
\<close>

definition valid_tile :: "select_req \<Rightarrow> sys \<Rightarrow> bool" where
  "valid_tile r s =
     (\<not> truthy (sc_questionId r)
      \<or> (case find (\<lambda>q. Some (q_id q) = sc_questionId r) (questions s) of
            None \<Rightarrow> False
          | Some q \<Rightarrow> q_selected_for_game q \<and> \<not> q_used_in_game q))"

text \<open>
  A default question matches a requested tile when the request names a category that is
  not blank and a point value, the categories agree up to surrounding blanks and letter
  case, and the point values are equal.
\<close>

definition tile_matches :: "string option \<Rightarrow> int option \<Rightarrow> default_question \<Rightarrow> bool" where
  "tile_matches category points e =
     (case (category, points) of
        (Some c, Some pts) \<Rightarrow>
          js_trim c \<noteq> []
          \<and> js_toLowerCase (js_trim (dq_category e)) = js_toLowerCase (js_trim c)
          \<and> dq_points e = pts
      | _ \<Rightarrow> False)"

text \<open>The database after a buzz, and after a resolution as wrong.\<close>

definition after_buzz :: "string \<Rightarrow> nat \<Rightarrow> string \<Rightarrow> sys \<Rightarrow> sys" where
  "after_buzz playerId now uuid s = snd (buzz (Some playerId) now uuid s)"

definition after_wrong :: "string \<Rightarrow> nat \<Rightarrow> sys \<Rightarrow> sys" where
  "after_wrong playerId now s = snd (resolveCurrent (Some playerId) (Some False) now s)"

text \<open>Every queued buzz belongs to a player of the roster, under a non-empty id.\<close>

definition queue_ok :: "sys \<Rightarrow> bool" where
  "queue_ok s =
     (\<forall>b\<in>set (buzz_queue s). b_player_id b \<noteq> [] \<and> b_player_id b \<in> set (map p_id (players s)))"

text \<open>
  Outside an ended game, a locked buzzer has a responder from the roster and an active
  clue.
\<close>

definition lock_ok :: "sys \<Rightarrow> bool" where
  "lock_ok s =
     (buzzer_locked (game s) \<and> status (game s) \<noteq> Ended \<longrightarrow>
        (\<exists>p. last_buzz_player_id (game s) = Some p \<and> p \<noteq> [] \<and> p \<in> set (map p_id (players s)))
        \<and> clueActive (game s))"

subsection \<open>A sample game\<close>

definition alice :: player where
  "alice = \<lparr>p_id = ''alice'', p_name = ''Alice'', p_slug = Some ''alice'', p_score = 0,
            p_created_at = 1\<rparr>"

definition bob :: player where
  "bob = \<lparr>p_id = ''bob'', p_name = ''Bob'', p_slug = Some ''bob'', p_score = 0,
          p_created_at = 2\<rparr>"

definition carol :: player where
  "carol = \<lparr>p_id = ''carol'', p_name = ''Carol'', p_slug = Some ''carol'', p_score = 0,
            p_created_at = 3\<rparr>"

definition sleigh :: question where
  "sleigh = \<lparr>q_id = ''q1'', q_player_id = ''carol'', q_question_text = ''Who pulls the sleigh?'',
             q_answer = ''Reindeer'', q_category = Some ''Holidays'', q_points = Some 100,
             q_selected_for_game = True, q_used_in_game = False, q_created_at = 4\<rparr>"

definition empty_tile :: select_req where
  "empty_tile = \<lparr>sc_questionId = None, sc_category = Some ''Disney & Pixar'',
                 sc_points = Some 200, sc_force = False, sc_pickerPlayerId = None\<rparr>"

definition sleigh_tile :: select_req where
  "sleigh_tile = \<lparr>sc_questionId = Some ''q1'', sc_category = Some ''Holidays'',
                  sc_points = Some 100, sc_force = False, sc_pickerPlayerId = None\<rparr>"

text \<open>The game is started, an empty tile is picked, and Alice buzzes first.\<close>

definition demo_started :: sys where
  "demo_started = snd (startGame [] 10 (\<lambda>k. ''house-id'') (init_sys [alice, bob, carol] [sleigh]))"

definition demo_open :: sys where
  "demo_open = snd (selectCard [] empty_tile demo_started)"

definition demo_locked :: sys where
  "demo_locked = snd (buzz (Some ''alice'') 20 ''b1'' demo_open)"

text \<open>
  Carol's question is picked instead, Alice buzzes first, Bob queues up behind her, and
  Carol is then removed from the roster, which deletes her question.
\<close>

definition demo_real :: sys where
  "demo_real = snd (selectCard [] sleigh_tile demo_started)"

definition demo_real_queued :: sys where
  "demo_real_queued =
     snd (buzz (Some ''bob'') 21 ''b2'' (snd (buzz (Some ''alice'') 20 ''b1'' demo_real)))"

definition demo_dangling :: sys where
  "demo_dangling = snd (deletePlayer ''carol'' demo_real_queued)"

text \<open>
  On the second copy of the server, the host marks the open placeholder clue of the sample
  game as being read aloud.
\<close>

definition demo_reading :: sys where
  "demo_reading = snd (setQuestionReading (Some True) demo_open)"

text \<open>Alice is resolved as correct on the placeholder clue: the turn is hers.\<close>

definition demo_turn :: sys where
  "demo_turn = snd (resolveCurrent (Some ''alice'') (Some True) 30 demo_locked)"

text \<open>
  A fourth player, Dave, holds the lock on the open placeholder clue of the sample game;
  nobody is queued yet.
\<close>

definition dave :: player where
  "dave = \<lparr>p_id = ''dave'', p_name = ''Dave'', p_slug = Some ''dave'', p_score = 0,
           p_created_at = 5\<rparr>"

definition demo_dave_locked :: sys where
  "demo_dave_locked =
     demo_open\<lparr>players := [alice, bob, carol, dave],
               game := (game demo_open)\<lparr>buzzer_locked := True,
                          last_buzz_player_id := Some ''dave'', last_buzz_time := Some 15\<rparr>\<rparr>"

text \<open>Two default packs for the Disney tile: one complete, one with a blank clue text.\<close>

definition olaf :: default_question where
  "olaf = \<lparr>dq_category = '' DISNEY & Pixar '', dq_points = 200,
           dq_questionText = ''Which snowman in Frozen likes warm hugs?'', dq_answer = ''Olaf''\<rparr>"

definition blank_olaf :: default_question where
  "blank_olaf = \<lparr>dq_category = ''Disney & Pixar'', dq_points = 200,
                 dq_questionText = '''', dq_answer = ''Olaf''\<rparr>"

section \<open>Properties\<close>

lemmas handler_defs = selectCard_def buzz_def resolveCurrent_def startGame_def endGame_def
  resetGame_def resetBoard_def unlockBuzzer_def deletePlayer_def seedDefaultQuestions_def
  ensureSystemPlayer_def findDefaultQuestion_def enqueueBuzz_def dequeueNextBuzz_def
  updateGameState_def getGameState_def clearBuzzQueue_def clueActive_def truthy_def
  resolve_delta_def add_score_def scoreboard_def listBuzzQueue_def init_sys_def init_game_def
  js_trim_def js_toLowerCase_def lower_char_def is_space_def or_NA_def Let_def

subsection \<open>List lookups\<close>

lemma find_SomeD: "find P xs = Some x \<Longrightarrow> x \<in> set xs \<and> P x"
  by (induction xs) (auto split: if_splits)

lemma find_None_iff_set: "find P xs = None \<longleftrightarrow> (\<forall>x\<in>set xs. \<not> P x)"
  by (induction xs) auto

lemma find_in_set: "x \<in> set xs \<Longrightarrow> P x \<Longrightarrow> \<exists>y. find P xs = Some y"
  by (cases "find P xs") (auto simp: find_None_iff_set)

lemma earliest_None_iff: "earliest bs = None \<longleftrightarrow> bs = []"
  by (induction bs) (auto split: option.splits)

lemma earliest_SomeD:
  "earliest bs = Some m \<Longrightarrow> m \<in> set bs \<and> (\<forall>b\<in>set bs. b_buzz_time m \<le> b_buzz_time b)"
proof (induction bs arbitrary: m)
  case Nil
  then show ?case by simp
next
  case (Cons b bs)
  show ?case
  proof (cases "earliest bs")
    case None
    then have "bs = []" by (simp add: earliest_None_iff)
    with Cons.prems None show ?thesis by simp
  next
    case (Some m')
    from Cons.IH [OF Some]
    have m': "m' \<in> set bs" "\<forall>x\<in>set bs. b_buzz_time m' \<le> b_buzz_time x"
      by simp_all
    show ?thesis
    proof (cases "b_buzz_time b \<le> b_buzz_time m'")
      case True
      with Cons.prems Some have "m = b" by simp
      with True m' show ?thesis by (auto intro: order_trans)
    next
      case False
      with Cons.prems Some have "m = m'" by simp
      with False m' show ?thesis by auto
    qed
  qed
qed

subsection \<open>The sample game, evaluated\<close>

lemma demo_started_eq:
  "demo_started =
     \<lparr>game = init_game\<lparr>status := Active\<rparr>, buzz_queue = [],
      players = [alice, bob, carol], questions = [sleigh]\<rparr>"
  by (simp add: demo_started_def sleigh_def handler_defs)

lemma demo_open_eq:
  "demo_open =
     \<lparr>game = init_game\<lparr>status := Active, current_category := Some ''Disney & Pixar'',
                       current_points := Some 200, current_is_placeholder := True,
                       current_clue_text := Some ''N/A'', current_answer_text := Some ''N/A''\<rparr>,
      buzz_queue = [], players = [alice, bob, carol], questions = [sleigh]\<rparr>"
  by (simp add: demo_open_def demo_started_eq empty_tile_def handler_defs)

lemma demo_locked_eq:
  "demo_locked =
     demo_open\<lparr>game := (game demo_open)\<lparr>buzzer_locked := True,
                  last_buzz_player_id := Some ''alice'', last_buzz_time := Some 20\<rparr>\<rparr>"
  by (simp add: demo_locked_def demo_open_eq alice_def handler_defs)

lemma demo_real_eq:
  "demo_real =
     \<lparr>game = init_game\<lparr>status := Active, current_question_id := Some ''q1'',
                       current_category := Some ''Holidays'', current_points := Some 100\<rparr>,
      buzz_queue = [], players = [alice, bob, carol],
      questions = [sleigh\<lparr>q_used_in_game := True\<rparr>]\<rparr>"
  by (simp add: demo_real_def demo_started_eq sleigh_tile_def sleigh_def handler_defs)

lemma demo_real_queued_eq:
  "demo_real_queued =
     demo_real\<lparr>game := (game demo_real)\<lparr>buzzer_locked := True,
                  last_buzz_player_id := Some ''alice'', last_buzz_time := Some 20\<rparr>,
               buzz_queue := [\<lparr>b_id = ''b2'', b_player_id = ''bob'', b_buzz_time = 21\<rparr>]\<rparr>"
  by (simp add: demo_real_queued_def demo_real_eq alice_def bob_def handler_defs)

lemma demo_dangling_eq:
  "demo_dangling =
     \<lparr>game = init_game\<lparr>status := Active, current_question_id := Some ''q1'',
                       current_category := Some ''Holidays'', current_points := Some 100,
                       buzzer_locked := True, last_buzz_player_id := Some ''alice'',
                       last_buzz_time := Some 20\<rparr>,
      buzz_queue = [\<lparr>b_id = ''b2'', b_player_id = ''bob'', b_buzz_time = 21\<rparr>],
      players = [alice, bob], questions = []\<rparr>"
  by (simp add: demo_dangling_def demo_real_queued_eq demo_real_eq alice_def bob_def carol_def
      sleigh_def handler_defs)

lemma demo_locked_reachable: "reachable [] demo_locked"
  unfolding demo_locked_def demo_open_def demo_started_def
  by (intro reachable.intros)

lemma demo_dangling_reachable: "reachable [] demo_dangling"
  unfolding demo_dangling_def demo_real_queued_def demo_real_def demo_started_def
  by (intro reachable.intros)

subsection \<open>The invariants hold in every reachable state\<close>

lemma inv_init: "queue_ok (init_sys ps qs) \<and> lock_ok (init_sys ps qs)"
  by (simp add: queue_ok_def lock_ok_def init_sys_def init_game_def)

lemma inv_selectCard:
  "queue_ok s \<Longrightarrow> lock_ok s \<Longrightarrow>
   queue_ok (snd (selectCard dqs r s)) \<and> lock_ok (snd (selectCard dqs r s))"
  by (auto simp: selectCard_def Let_def queue_ok_def lock_ok_def updateGameState_def
      clearBuzzQueue_def getGameState_def split: option.splits)

lemma inv_buzz:
  "queue_ok s \<Longrightarrow> lock_ok s \<Longrightarrow>
   queue_ok (snd (buzz playerId now uuid s)) \<and> lock_ok (snd (buzz playerId now uuid s))"
  by (auto simp: buzz_def Let_def queue_ok_def lock_ok_def updateGameState_def enqueueBuzz_def
      getGameState_def clueActive_def dest!: find_SomeD split: option.splits)

lemma inv_resolveCurrent:
  "queue_ok s \<Longrightarrow> lock_ok s \<Longrightarrow>
   queue_ok (snd (resolveCurrent playerId correct now s))
   \<and> lock_ok (snd (resolveCurrent playerId correct now s))"
  by (auto simp: resolveCurrent_def Let_def queue_ok_def lock_ok_def updateGameState_def
      getGameState_def clueActive_def clearBuzzQueue_def add_score_def dequeueNextBuzz_def
      dest!: earliest_SomeD split: option.splits sum.splits)

lemma ensureSystemPlayer_frame:
  "game (snd (ensureSystemPlayer u now s)) = game s
   \<and> buzz_queue (snd (ensureSystemPlayer u now s)) = buzz_queue s
   \<and> set (map p_id (players s)) \<subseteq> set (map p_id (players (snd (ensureSystemPlayer u now s))))"
  by (auto simp: ensureSystemPlayer_def Let_def split: option.splits)

lemma seedDefaultQuestions_frame:
  "game (snd (seedDefaultQuestions dqs sel now us s)) = game s
   \<and> buzz_queue (snd (seedDefaultQuestions dqs sel now us s)) = buzz_queue s
   \<and> set (map p_id (players s))
       \<subseteq> set (map p_id (players (snd (seedDefaultQuestions dqs sel now us s))))"
  using ensureSystemPlayer_frame [of "us 0" now s]
  by (auto simp: seedDefaultQuestions_def split: prod.splits sum.splits option.splits)

lemma inv_startGame:
  "queue_ok s \<Longrightarrow> lock_ok s \<Longrightarrow>
   queue_ok (snd (startGame dqs now us s)) \<and> lock_ok (snd (startGame dqs now us s))"
proof (cases "fst (seedDefaultQuestions dqs True now us s)")
  case (Inl e)
  assume "queue_ok s" "lock_ok s"
  then show ?thesis
    using seedDefaultQuestions_frame [of dqs True now us s] Inl
    by (cases "seedDefaultQuestions dqs True now us s")
       (auto simp: startGame_def Let_def queue_ok_def lock_ok_def updateGameState_def
          clearBuzzQueue_def split: prod.splits sum.splits)
next
  case (Inr u)
  then show ?thesis
    by (cases "seedDefaultQuestions dqs True now us s")
       (auto simp: startGame_def Let_def queue_ok_def lock_ok_def updateGameState_def
          clearBuzzQueue_def split: prod.splits sum.splits)
qed

lemma inv_endGame:
  "queue_ok s \<Longrightarrow> lock_ok s \<Longrightarrow> queue_ok (snd (endGame s)) \<and> lock_ok (snd (endGame s))"
  by (auto simp: endGame_def Let_def queue_ok_def lock_ok_def updateGameState_def
      clearBuzzQueue_def)

lemma inv_resetGame:
  "queue_ok s \<Longrightarrow> lock_ok s \<Longrightarrow> queue_ok (snd (resetGame s)) \<and> lock_ok (snd (resetGame s))"
  by (auto simp: resetGame_def Let_def queue_ok_def lock_ok_def updateGameState_def
      clearBuzzQueue_def)

lemma inv_resetBoard:
  "queue_ok s \<Longrightarrow> lock_ok s \<Longrightarrow> queue_ok (snd (resetBoard s)) \<and> lock_ok (snd (resetBoard s))"
  by (auto simp: resetBoard_def Let_def queue_ok_def lock_ok_def updateGameState_def)

lemma inv_unlockBuzzer:
  "queue_ok s \<Longrightarrow> lock_ok s \<Longrightarrow>
   queue_ok (snd (unlockBuzzer s)) \<and> lock_ok (snd (unlockBuzzer s))"
  by (auto simp: unlockBuzzer_def Let_def queue_ok_def lock_ok_def updateGameState_def
      clearBuzzQueue_def)

lemma inv_deletePlayer:
  "queue_ok s \<Longrightarrow> lock_ok s \<Longrightarrow>
   queue_ok (snd (deletePlayer ident s)) \<and> lock_ok (snd (deletePlayer ident s))"
  by (auto simp: deletePlayer_def Let_def queue_ok_def lock_ok_def updateGameState_def
      getGameState_def clueActive_def split: option.splits)

lemma reachable_inv: "reachable dqs s \<Longrightarrow> queue_ok s \<and> lock_ok s"
proof (induction rule: reachable.induct)
  case (r_init ps qs)
  show ?case by (rule inv_init)
next
  case (r_selectCard s r)
  then show ?case using inv_selectCard by blast
next
  case (r_buzz s playerId now uuid)
  then show ?case using inv_buzz by blast
next
  case (r_resolveCurrent s playerId correct now)
  then show ?case using inv_resolveCurrent by blast
next
  case (r_startGame s now uuids)
  then show ?case using inv_startGame by blast
next
  case (r_endGame s)
  then show ?case using inv_endGame by blast
next
  case (r_resetGame s)
  then show ?case using inv_resetGame by blast
next
  case (r_resetBoard s)
  then show ?case using inv_resetBoard by blast
next
  case (r_unlockBuzzer s)
  then show ?case using inv_unlockBuzzer by blast
next
  case (r_deletePlayer s ident)
  then show ?case using inv_deletePlayer by blast
qed

subsection \<open>C1: a locked buzzer has a responder and an active clue\<close>

text \<open>
  C1, as stated: in every state reachable from the initial game state through selectCard,
  buzz, resolveCurrent, startGame, endGame, resetGame, resetBoard, unlockBuzzer and
  deletePlayer, a locked buzzer implies that \<open>lastBuzzPlayerId\<close> is set to some player and
  that a clue is active. This fails: \<^verbatim>\<open>POST /api/game/end\<close> patches \<^verbatim>\<open>buzzer_locked: 1\<close>
  and nothing else but the status, so ending a fresh game locks the buzzer with no
  responder and no clue.
\<close>

theorem endGame_locks_without_responder:
  "reachable [] (snd (endGame (init_sys [] [])))
   \<and> buzzer_locked (game (snd (endGame (init_sys [] []))))
   \<and> last_buzz_player_id (game (snd (endGame (init_sys [] [])))) = None
   \<and> \<not> clueActive (game (snd (endGame (init_sys [] []))))"
proof -
  have "reachable [] (snd (endGame (init_sys [] [])))"
    by (intro reachable.intros)
  then show ?thesis
    by (simp add: handler_defs)
qed

text \<open>
  C1, amended: in every state reachable through the nine operations, a locked buzzer
  implies that the game has ended (the lockout of \<^verbatim>\<open>endGame\<close>) or that
  \<open>lastBuzzPlayerId\<close> is the non-empty id of a player of the roster and a clue is active.
\<close>

theorem locked_has_responder_unless_ended:
  assumes "reachable dqs s" and "buzzer_locked (game s)" and "status (game s) \<noteq> Ended"
  shows "(\<exists>p. last_buzz_player_id (game s) = Some p \<and> p \<noteq> [] \<and> p \<in> set (map p_id (players s)))
         \<and> clueActive (game s)"
  using reachable_inv [OF assms(1)] assms(2,3)
  by (simp add: lock_ok_def)

theorem locked_has_responder_unless_ended_witness:
  "reachable [] demo_locked \<and> buzzer_locked (game demo_locked)
   \<and> status (game demo_locked) \<noteq> Ended
   \<and> (\<exists>p. last_buzz_player_id (game demo_locked) = Some p \<and> p \<noteq> []
          \<and> p \<in> set (map p_id (players demo_locked)))
   \<and> clueActive (game demo_locked)"
proof -
  have l: "buzzer_locked (game demo_locked)"
    by (simp add: demo_locked_eq)
  have e: "status (game demo_locked) \<noteq> Ended"
    by (simp add: demo_locked_eq demo_open_eq init_game_def)
  show ?thesis
    using locked_has_responder_unless_ended [OF demo_locked_reachable l e]
      demo_locked_reachable l e
    by simp
qed

subsection \<open>C2: buzzing while the clue is read aloud\<close>

text \<open>
  No handler of server.js writes \<^verbatim>\<open>question_reading\<close>, so the flag is never set in a
  state that server.js reaches, and its buzz handler does not read it either: whether a
  buzz is rejected, and why, is the same whatever the flag holds. The reading window is a
  feature of the second copy of the server.
\<close>

lemma reachable_never_reading: "reachable dqs s \<Longrightarrow> \<not> question_reading (game s)"
proof (induction rule: reachable.induct)
  case (r_init ps qs)
  show ?case by (simp add: init_sys_def init_game_def)
next
  case (r_selectCard s r)
  then show ?case
    by (auto simp: selectCard_def updateGameState_def clearBuzzQueue_def getGameState_def
        Let_def split: option.splits)
next
  case (r_buzz s playerId now uuid)
  then show ?case
    by (auto simp: buzz_def enqueueBuzz_def updateGameState_def getGameState_def Let_def
        split: option.splits)
next
  case (r_resolveCurrent s playerId correct now)
  then show ?case
    by (auto simp: resolveCurrent_def dequeueNextBuzz_def updateGameState_def
        getGameState_def clearBuzzQueue_def add_score_def Let_def
        split: option.splits sum.splits)
next
  case (r_startGame s now uuids)
  then show ?case
    using seedDefaultQuestions_frame [of dqs True now uuids s]
    by (cases "seedDefaultQuestions dqs True now uuids s")
       (auto simp: startGame_def updateGameState_def clearBuzzQueue_def Let_def
          split: sum.splits)
next
  case (r_endGame s)
  then show ?case
    by (simp add: endGame_def updateGameState_def clearBuzzQueue_def Let_def)
next
  case (r_resetGame s)
  then show ?case
    by (simp add: resetGame_def updateGameState_def clearBuzzQueue_def Let_def)
next
  case (r_resetBoard s)
  then show ?case
    by (simp add: resetBoard_def updateGameState_def Let_def)
next
  case (r_unlockBuzzer s)
  then show ?case
    by (simp add: unlockBuzzer_def updateGameState_def clearBuzzQueue_def Let_def)
next
  case (r_deletePlayer s ident)
  then show ?case
    by (auto simp: deletePlayer_def updateGameState_def getGameState_def Let_def
        split: option.splits)
qed

lemma buzz_ignores_question_reading:
  "fst (buzz playerId now uuid (s\<lparr>game := (game s)\<lparr>question_reading := b\<rparr>\<rparr>)) = Inl e
   \<longleftrightarrow> fst (buzz playerId now uuid s) = Inl e"
  by (auto simp: buzz_def enqueueBuzz_def updateGameState_def getGameState_def clueActive_def
      Let_def split: option.splits)

text \<open>
  The buzz handler of the second copy rejects a buzz while the clue is read, and is the
  handler of server.js once the flag is cleared.
\<close>

lemma buzz_rev2_rejects_while_reading:
  assumes "pid \<noteq> []" and "pid \<in> set (map p_id (players s))"
    and "status (game s) = Active" and "clueActive (game s)" and "question_reading (game s)"
  shows "buzz_rev2 (Some pid) now uuid s = (Inl (BadRequest ''Question is still being read''), s)"
proof -
  from assms(2) obtain x where "x \<in> set (players s)" "p_id x = pid"
    by auto
  then obtain y where "find (\<lambda>p. p_id p = pid) (players s) = Some y"
    using find_in_set [of x "players s" "\<lambda>p. p_id p = pid"] by auto
  with assms show ?thesis
    by (simp add: buzz_rev2_def getGameState_def Let_def)
qed

lemma buzz_rev2_after_reading:
  "\<not> question_reading (game s) \<Longrightarrow> buzz_rev2 playerId now uuid s = buzz playerId now uuid s"
  by (simp add: buzz_rev2_def buzz_def getGameState_def Let_def split: option.splits)

lemma setQuestionReading_state:
  "setQuestionReading (Some b) s
   = (Inr ((game s)\<lparr>question_reading := b\<rparr>), s\<lparr>game := (game s)\<lparr>question_reading := b\<rparr>\<rparr>)"
  by (simp add: setQuestionReading_def updateGameState_def Let_def)

lemma demo_reading_eq:
  "demo_reading = demo_open\<lparr>game := (game demo_open)\<lparr>question_reading := True\<rparr>\<rparr>"
  by (simp add: demo_reading_def setQuestionReading_state)

lemma buzz_succeeds:
  assumes "pid \<noteq> []" and "pid \<in> set (map p_id (players s))"
    and "status (game s) = Active" and "clueActive (game s)"
    and "uuid \<notin> set (map b_id (buzz_queue s))"
  shows "\<exists>resp s'. buzz (Some pid) now uuid s = (Inr resp, s')
           \<and> (\<not> buzzer_locked (game s) \<longrightarrow>
                buzzer_locked (game s') \<and> last_buzz_player_id (game s') = Some pid
                \<and> last_buzz_time (game s') = Some now)"
proof -
  from assms(2) obtain x where "x \<in> set (players s)" "p_id x = pid"
    by auto
  then obtain y where "find (\<lambda>p. p_id p = pid) (players s) = Some y"
    using find_in_set [of x "players s" "\<lambda>p. p_id p = pid"] by auto
  with assms show ?thesis
    by (auto simp: buzz_def enqueueBuzz_def updateGameState_def getGameState_def Let_def)
qed

text \<open>
  C2: for every known player and every state where the game is active, a clue is active
  and \<open>questionReading\<close> is true, a \<open>buzz\<close> call fails with a client error (400) and
  leaves the game state and the buzz queue unchanged; after \<open>questionReading\<close> is set to
  false, the same call succeeds. Stated for the second copy of the server, the one with
  the reading window: the call is \<open>buzz_rev2\<close>, the flag is cleared through
  \<^verbatim>\<open>set-question-reading\<close>, the player's id is not empty, and \<open>uuid\<close>, the id that
  \<^verbatim>\<open>uuidv4()\<close> hands to a new queue row, is not the id of a row of the queue. Where
  the buzzer is open, the successful call also gives the player the lock.
\<close>

theorem buzz_rev2_reading_window:
  assumes "pid \<noteq> []" and "pid \<in> set (map p_id (players s))"
    and "status (game s) = Active" and "clueActive (game s)" and "question_reading (game s)"
    and "uuid \<notin> set (map b_id (buzz_queue s))"
  shows "buzz_rev2 (Some pid) now uuid s = (Inl (BadRequest ''Question is still being read''), s)
         \<and> (\<exists>resp s'.
               buzz_rev2 (Some pid) now uuid (snd (setQuestionReading (Some False) s))
                 = (Inr resp, s')
               \<and> (\<not> buzzer_locked (game s) \<longrightarrow>
                    buzzer_locked (game s') \<and> last_buzz_player_id (game s') = Some pid
                    \<and> last_buzz_time (game s') = Some now))"
proof
  show "buzz_rev2 (Some pid) now uuid s = (Inl (BadRequest ''Question is still being read''), s)"
    using assms(1-5) by (rule buzz_rev2_rejects_while_reading)
next
  let ?s1 = "s\<lparr>game := (game s)\<lparr>question_reading := False\<rparr>\<rparr>"
  have s1: "snd (setQuestionReading (Some False) s) = ?s1"
    by (simp add: setQuestionReading_state)
  have same: "buzz_rev2 (Some pid) now uuid ?s1 = buzz (Some pid) now uuid ?s1"
    by (rule buzz_rev2_after_reading) simp
  have "\<exists>resp s'. buzz (Some pid) now uuid ?s1 = (Inr resp, s')
           \<and> (\<not> buzzer_locked (game ?s1) \<longrightarrow>
                buzzer_locked (game s') \<and> last_buzz_player_id (game s') = Some pid
                \<and> last_buzz_time (game s') = Some now)"
    using assms by (intro buzz_succeeds) (simp_all add: clueActive_def)
  then show "\<exists>resp s'.
               buzz_rev2 (Some pid) now uuid (snd (setQuestionReading (Some False) s))
                 = (Inr resp, s')
               \<and> (\<not> buzzer_locked (game s) \<longrightarrow>
                    buzzer_locked (game s') \<and> last_buzz_player_id (game s') = Some pid
                    \<and> last_buzz_time (game s') = Some now)"
    by (simp add: s1 same)
qed

theorem buzz_rev2_reading_window_witness:
  "''alice'' \<in> set (map p_id (players demo_reading)) \<and> status (game demo_reading) = Active
   \<and> clueActive (game demo_reading) \<and> question_reading (game demo_reading)
   \<and> \<not> buzzer_locked (game demo_reading)
   \<and> buzz_rev2 (Some ''alice'') 20 ''b1'' demo_reading
       = (Inl (BadRequest ''Question is still being read''), demo_reading)
   \<and> (\<exists>resp s'.
         buzz_rev2 (Some ''alice'') 20 ''b1'' (snd (setQuestionReading (Some False) demo_reading))
           = (Inr resp, s')
         \<and> buzzer_locked (game s') \<and> last_buzz_player_id (game s') = Some ''alice''
         \<and> last_buzz_time (game s') = Some 20)"
proof -
  have a: "''alice'' \<noteq> []" "''alice'' \<in> set (map p_id (players demo_reading))"
    "status (game demo_reading) = Active" "clueActive (game demo_reading)"
    "question_reading (game demo_reading)"
    "''b1'' \<notin> set (map b_id (buzz_queue demo_reading))"
    by (simp_all add: demo_reading_eq demo_open_eq alice_def init_game_def clueActive_def)
  have u: "\<not> buzzer_locked (game demo_reading)"
    by (simp add: demo_reading_eq demo_open_eq init_game_def)
  show ?thesis
    using buzz_rev2_reading_window [OF a, of 20] a u
    by simp
qed

subsection \<open>C3: scoring a resolution\<close>

text \<open>
  On server.js a wrong resolution moves no score: the \<^verbatim>\<open>else\<close> branch (lines 947 to 978)
  has no \<^verbatim>\<open>UPDATE players\<close>, and the activity log records \<^verbatim>\<open>delta: correct ? delta : 0\<close>
  (line 998). The penalty is a feature of the second copy of the server, which also logs
  \<^verbatim>\<open>-delta\<close> for a miss. The correct branch is the same in both.
\<close>

lemma resolve_wrong_players_unchanged:
  "players (snd (resolveCurrent playerId (Some False) now s)) = players s"
  by (auto simp: resolveCurrent_def dequeueNextBuzz_def updateGameState_def getGameState_def
      Let_def split: option.splits sum.splits)






text \<open>
  The penalty is all that separates the two resolve handlers: they answer with the same
  game row and leave the same queue.
\<close>

lemma resolveCurrent_rev2_game_queue:
  "game (snd (resolveCurrent_rev2 playerId correct now s))
     = game (snd (resolveCurrent playerId correct now s))
   \<and> buzz_queue (snd (resolveCurrent_rev2 playerId correct now s))
     = buzz_queue (snd (resolveCurrent playerId correct now s))"
  by (auto simp: resolveCurrent_rev2_def resolveCurrent_def dequeueNextBuzz_def
      updateGameState_def getGameState_def add_score_def clearBuzzQueue_def Let_def
      split: option.splits sum.splits)




subsection \<open>The guards of resolve-current\<close>

text \<open>
  A missing or empty \<^verbatim>\<open>playerId\<close> is answered with 400, and a real clue whose catalog row
  is gone with 404, whatever \<^verbatim>\<open>correct\<close> holds; in both cases nothing is written.
\<close>

lemma resolve_missing_id:
  "resolveCurrent None correct now s
     = (Inl (BadRequest ''playerId and correct are required''), s)
   \<and> resolveCurrent (Some []) correct now s
     = (Inl (BadRequest ''playerId and correct are required''), s)"
  by (simp add: resolveCurrent_def split: option.splits)

lemma resolve_not_found:
  assumes "pid \<noteq> []" and "clueActive (game s)" and "\<not> current_is_placeholder (game s)"
    and "\<forall>q\<in>set (questions s). Some (q_id q) \<noteq> current_question_id (game s)"
  shows "resolveCurrent (Some pid) (Some c) now s = (Inl (NotFound ''Question not found''), s)"
proof -
  have "find (\<lambda>q. Some (q_id q) = current_question_id (game s)) (questions s) = None"
    using assms(4) by (simp add: find_None_iff_set)
  then have "resolve_delta s = Inl (NotFound ''Question not found'')"
    using assms(3) by (simp add: resolve_delta_def getGameState_def Let_def)
  with assms(1-3) show ?thesis
    by (simp add: resolveCurrent_def getGameState_def clueActive_def Let_def)
qed

subsection \<open>C4: a correct answer\<close>

lemma scoreboard_sorted: "sorted_wrt score_order (scoreboard s)"
proof -
  have "sorted (map (\<lambda>p. (- p_score p, p_created_at p)) (scoreboard s))"
    unfolding scoreboard_def by (rule sorted_sort_key)
  then have "sorted_wrt (\<lambda>p q. (- p_score p, p_created_at p) \<le> (- p_score q, p_created_at q))
               (scoreboard s)"
    by (simp add: sorted_wrt_map)
  moreover have "(- p_score p, p_created_at p) \<le> (- p_score q, p_created_at q)
                 \<longleftrightarrow> score_order p q" for p q
    by (auto simp: score_order_def)
  ultimately show ?thesis by simp
qed

lemma scoreboard_mset: "mset (scoreboard s) = mset (players s)"
  by (simp add: scoreboard_def)

text \<open>
  The handler can determine the value of the active clue exactly when the clue is a
  placeholder or the catalog still has the row of its question.
\<close>

lemma resolve_delta_determined:
  "(\<exists>V. resolve_delta s = Inr V)
   \<longleftrightarrow> current_is_placeholder (game s)
       \<or> (\<exists>q\<in>set (questions s). Some (q_id q) = current_question_id (game s))"
proof (cases "find (\<lambda>q. Some (q_id q) = current_question_id (game s)) (questions s)")
  case None
  then have "\<forall>q\<in>set (questions s). Some (q_id q) \<noteq> current_question_id (game s)"
    by (simp add: find_None_iff_set)
  with None show ?thesis
    by (auto simp: resolve_delta_def getGameState_def Let_def)
next
  case (Some q)
  from find_SomeD [OF Some] Some show ?thesis
    by (auto simp: resolve_delta_def getGameState_def Let_def)
qed

text \<open>
  C4, as stated: for every player \<open>P\<close> and every state with an active clue,
  \<open>resolve(P, correct = true)\<close> clears the clue, hands the turn to \<open>P\<close>, clears the lock
  and the queue, and returns the sorted scoreboard. This fails where the active clue is
  a real question whose catalog row is gone: the handler then answers 404
  \<^verbatim>\<open>Question not found\<close> (lines 921 to 926) and changes nothing. Such a state is
  reachable: deleting a player deletes that player's questions but leaves
  \<^verbatim>\<open>current_question_id\<close> in place.
\<close>

theorem resolve_correct_rejected_without_catalog_row:
  "reachable [] demo_dangling
   \<and> ''alice'' \<in> set (map p_id (players demo_dangling))
   \<and> clueActive (game demo_dangling)
   \<and> resolveCurrent (Some ''alice'') (Some True) 30 demo_dangling
       = (Inl (NotFound ''Question not found''), demo_dangling)
   \<and> turn_player_id (game demo_dangling) = None
   \<and> buzzer_locked (game demo_dangling)
   \<and> buzz_queue demo_dangling \<noteq> []"
  using demo_dangling_reachable
  by (simp add: demo_dangling_eq alice_def bob_def handler_defs)

lemma resolve_correct_effect:
  assumes "P \<noteq> []" and "clueActive (game s)" and "resolve_delta s = Inr V"
  shows "\<exists>g' board s'.
           resolveCurrent (Some P) (Some True) now s = (Inr (g', board), s')
           \<and> game s' = g' \<and> \<not> clueActive g'
           \<and> current_question_id g' = None \<and> current_category g' = None
           \<and> current_points g' = None \<and> \<not> current_is_placeholder g'
           \<and> current_clue_text g' = None \<and> current_answer_text g' = None
           \<and> turn_player_id g' = Some P
           \<and> \<not> buzzer_locked g' \<and> last_buzz_player_id g' = None \<and> last_buzz_time g' = None
           \<and> buzz_queue s' = []
           \<and> mset board = mset (players s') \<and> sorted_wrt score_order board"
proof -
  let ?s1 = "clearBuzzQueue (add_score V P s)"
  let ?g' = "(game s)\<lparr>current_question_id := None, current_category := None,
                current_points := None, current_is_placeholder := False,
                current_clue_text := None, current_answer_text := None,
                turn_player_id := Some P, buzzer_locked := False,
                last_buzz_player_id := None, last_buzz_time := None\<rparr>"
  let ?s' = "?s1\<lparr>game := ?g'\<rparr>"
  have run: "resolveCurrent (Some P) (Some True) now s = (Inr (?g', scoreboard ?s'), ?s')"
    using assms
    by (auto simp: resolveCurrent_def updateGameState_def getGameState_def clueActive_def
        clearBuzzQueue_def add_score_def Let_def)
  have "\<not> clueActive ?g'"
    by (simp add: clueActive_def truthy_def)
  moreover have "buzz_queue ?s' = []"
    by (simp add: clearBuzzQueue_def)
  moreover have "mset (scoreboard ?s') = mset (players ?s')"
    by (rule scoreboard_mset)
  moreover have "sorted_wrt score_order (scoreboard ?s')"
    by (rule scoreboard_sorted)
  ultimately show ?thesis
    using run by simp
qed

text \<open>
  C4, amended: for every player \<open>P\<close> and every state with an active clue whose point
  value the handler can determine (a placeholder, or a real question whose catalog row
  still exists), \<open>resolve(P, correct = true)\<close> succeeds, clears the clue entirely, sets
  \<open>turnPlayerId = P\<close>, sets \<open>buzzerLocked\<close> false with \<open>lastBuzzPlayerId\<close> and
  \<open>lastBuzzTime\<close> cleared, and empties the buzz queue; the returned scoreboard holds the
  players of the resulting state sorted by score descending, ties broken by earliest
  registration. When the active clue is a real question whose catalog row no longer
  exists, the call fails with not-found (404) and changes nothing.
\<close>

theorem resolve_correct_clears_clue:
  assumes "P \<noteq> []" and "P \<in> set (map p_id (players s))" and "clueActive (game s)"
  shows "(resolve_delta s = Inr V \<longrightarrow>
            (\<exists>g' board s'.
               resolveCurrent (Some P) (Some True) now s = (Inr (g', board), s')
               \<and> game s' = g' \<and> \<not> clueActive g'
               \<and> current_question_id g' = None \<and> current_category g' = None
               \<and> current_points g' = None \<and> \<not> current_is_placeholder g'
               \<and> current_clue_text g' = None \<and> current_answer_text g' = None
               \<and> turn_player_id g' = Some P
               \<and> \<not> buzzer_locked g' \<and> last_buzz_player_id g' = None
               \<and> last_buzz_time g' = None
               \<and> buzz_queue s' = []
               \<and> mset board = mset (players s') \<and> sorted_wrt score_order board))
         \<and> (\<not> current_is_placeholder (game s)
              \<and> (\<forall>q\<in>set (questions s). Some (q_id q) \<noteq> current_question_id (game s)) \<longrightarrow>
            resolveCurrent (Some P) (Some True) now s
              = (Inl (NotFound ''Question not found''), s))"
  using resolve_correct_effect [OF assms(1,3), of V now]
    resolve_not_found [OF assms(1,3), of True now]
  by blast

theorem resolve_correct_clears_clue_witness:
  "''bob'' \<in> set (map p_id (players demo_real_queued)) \<and> clueActive (game demo_real_queued)
   \<and> resolve_delta demo_real_queued = Inr 100
   \<and> (\<exists>g' board s'.
         resolveCurrent (Some ''bob'') (Some True) 30 demo_real_queued = (Inr (g', board), s')
         \<and> game s' = g' \<and> \<not> clueActive g' \<and> turn_player_id g' = Some ''bob''
         \<and> \<not> buzzer_locked g' \<and> last_buzz_player_id g' = None \<and> last_buzz_time g' = None
         \<and> buzz_queue s' = []
         \<and> mset board = mset (players s') \<and> sorted_wrt score_order board
         \<and> board = [bob\<lparr>p_score := 100\<rparr>, alice, carol])
   \<and> ''bob'' \<in> set (map p_id (players demo_dangling)) \<and> clueActive (game demo_dangling)
   \<and> \<not> current_is_placeholder (game demo_dangling)
   \<and> questions demo_dangling = []
   \<and> resolveCurrent (Some ''bob'') (Some True) 31 demo_dangling
       = (Inl (NotFound ''Question not found''), demo_dangling)"
proof -
  have a: "''bob'' \<noteq> []" "''bob'' \<in> set (map p_id (players demo_real_queued))"
    "clueActive (game demo_real_queued)"
    by (simp_all add: demo_real_queued_eq demo_real_eq alice_def bob_def
        clueActive_def truthy_def init_game_def)
  have v: "resolve_delta demo_real_queued = Inr 100"
    by (simp add: demo_real_queued_eq demo_real_eq sleigh_def resolve_delta_def
        getGameState_def init_game_def)
  have b: "map_sum id snd (fst (resolveCurrent (Some ''bob'') (Some True) 30 demo_real_queued))
           = Inr [bob\<lparr>p_score := 100\<rparr>, alice, carol]"
    by (simp add: demo_real_queued_eq demo_real_eq alice_def bob_def carol_def sleigh_def
        handler_defs)
  from resolve_correct_clears_clue [OF a, of 100 30] v obtain g' board s' where
    r: "resolveCurrent (Some ''bob'') (Some True) 30 demo_real_queued = (Inr (g', board), s')"
       "game s' = g'" "\<not> clueActive g'" "turn_player_id g' = Some ''bob''"
       "\<not> buzzer_locked g'" "last_buzz_player_id g' = None" "last_buzz_time g' = None"
       "buzz_queue s' = []" "mset board = mset (players s')" "sorted_wrt score_order board"
    by blast
  from r(1) b have "board = [bob\<lparr>p_score := 100\<rparr>, alice, carol]"
    by simp
  with r have first: "\<exists>g' board s'.
         resolveCurrent (Some ''bob'') (Some True) 30 demo_real_queued = (Inr (g', board), s')
         \<and> game s' = g' \<and> \<not> clueActive g' \<and> turn_player_id g' = Some ''bob''
         \<and> \<not> buzzer_locked g' \<and> last_buzz_player_id g' = None \<and> last_buzz_time g' = None
         \<and> buzz_queue s' = []
         \<and> mset board = mset (players s') \<and> sorted_wrt score_order board
         \<and> board = [bob\<lparr>p_score := 100\<rparr>, alice, carol]"
    by blast
  have d: "''bob'' \<in> set (map p_id (players demo_dangling))" "clueActive (game demo_dangling)"
    "\<not> current_is_placeholder (game demo_dangling)" "questions demo_dangling = []"
    by (simp_all add: demo_dangling_eq alice_def bob_def clueActive_def truthy_def
        init_game_def)
  from resolve_correct_clears_clue [OF a(1) d(1,2), of 0 31] d(3,4)
  have second: "resolveCurrent (Some ''bob'') (Some True) 31 demo_dangling
       = (Inl (NotFound ''Question not found''), demo_dangling)"
    by simp
  from a v first d second show ?thesis by blast
qed

subsection \<open>C5: a wrong answer\<close>

lemma resolve_delta_frame:
  assumes "current_is_placeholder (game s') = current_is_placeholder (game s)"
    and "current_points (game s') = current_points (game s)"
    and "current_question_id (game s') = current_question_id (game s)"
    and "questions s' = questions s"
  shows "resolve_delta s' = resolve_delta s"
  using assms by (simp add: resolve_delta_def getGameState_def Let_def)

lemma buzz_enqueues:
  assumes "pid \<noteq> []" and "pid \<in> set (map p_id (players s))"
    and "status (game s) = Active" and "clueActive (game s)" and "buzzer_locked (game s)"
    and "last_buzz_player_id (game s) \<noteq> Some pid"
    and "pid \<notin> set (map b_player_id (buzz_queue s))"
    and "u \<notin> set (map b_id (buzz_queue s))"
  shows "after_buzz pid t u s
         = s\<lparr>buzz_queue := buzz_queue s @ [\<lparr>b_id = u, b_player_id = pid, b_buzz_time = t\<rparr>]\<rparr>"
proof -
  from assms(2) obtain x where "x \<in> set (players s)" "p_id x = pid"
    by auto
  then obtain y where y: "find (\<lambda>p. p_id p = pid) (players s) = Some y"
    using find_in_set [of x "players s" "\<lambda>p. p_id p = pid"] by auto
  have "\<not> list_ex (\<lambda>b. b_player_id b = pid) (buzz_queue s)"
    using assms(7) by (auto simp: list_ex_iff)
  with y assms show ?thesis
    by (simp add: after_buzz_def buzz_def enqueueBuzz_def getGameState_def Let_def)
qed

lemma resolve_wrong_step:
  assumes "pid \<noteq> []" and "clueActive (game s)" and "resolve_delta s = Inr V"
  shows "resolveCurrent (Some pid) (Some False) now s =
           (case earliest (buzz_queue s) of
              None \<Rightarrow>
                (Inr ((game s)\<lparr>buzzer_locked := False, last_buzz_player_id := None,
                              last_buzz_time := None\<rparr>, scoreboard s),
                 s\<lparr>game := (game s)\<lparr>buzzer_locked := False, last_buzz_player_id := None,
                                     last_buzz_time := None\<rparr>\<rparr>)
            | Some next \<Rightarrow>
                (Inr ((game s)\<lparr>buzzer_locked := True,
                              last_buzz_player_id := Some (b_player_id next),
                              last_buzz_time := Some now\<rparr>, scoreboard s),
                 s\<lparr>buzz_queue := filter (\<lambda>b. b_id b \<noteq> b_id next) (buzz_queue s),
                   game := (game s)\<lparr>buzzer_locked := True,
                                     last_buzz_player_id := Some (b_player_id next),
                                     last_buzz_time := Some now\<rparr>\<rparr>))"
  using assms
  by (auto simp: resolveCurrent_def dequeueNextBuzz_def updateGameState_def getGameState_def
      clueActive_def scoreboard_def Let_def split: option.splits)

lemma resolve_wrong_general:
  assumes "pid \<noteq> []" and "clueActive (game s)" and "resolve_delta s = Inr V"
  shows "\<exists>g' board s'.
           resolveCurrent (Some pid) (Some False) now s = (Inr (g', board), s')
           \<and> game s' = g'
           \<and> current_question_id g' = current_question_id (game s)
           \<and> current_category g' = current_category (game s)
           \<and> current_points g' = current_points (game s)
           \<and> current_is_placeholder g' = current_is_placeholder (game s)
           \<and> current_clue_text g' = current_clue_text (game s)
           \<and> current_answer_text g' = current_answer_text (game s)
           \<and> (buzz_queue s = [] \<longrightarrow>
                \<not> buzzer_locked g' \<and> last_buzz_player_id g' = None
                \<and> last_buzz_time g' = None \<and> buzz_queue s' = [])
           \<and> (buzz_queue s \<noteq> [] \<longrightarrow>
                (\<exists>next\<in>set (buzz_queue s).
                   (\<forall>b\<in>set (buzz_queue s). b_buzz_time next \<le> b_buzz_time b)
                   \<and> buzz_queue s' = filter (\<lambda>b. b_id b \<noteq> b_id next) (buzz_queue s)
                   \<and> next \<notin> set (buzz_queue s')
                   \<and> buzzer_locked g' \<and> last_buzz_player_id g' = Some (b_player_id next)
                   \<and> last_buzz_time g' = Some now))"
proof (cases "earliest (buzz_queue s)")
  case None
  then have "buzz_queue s = []"
    by (simp add: earliest_None_iff)
  with None resolve_wrong_step [OF assms, of now] show ?thesis
    by simp
next
  case (Some nxt)
  from earliest_SomeD [OF Some]
  have n: "nxt \<in> set (buzz_queue s)" "\<forall>b\<in>set (buzz_queue s). b_buzz_time nxt \<le> b_buzz_time b"
    by simp_all
  then have "buzz_queue s \<noteq> []"
    by auto
  with Some n resolve_wrong_step [OF assms, of now] show ?thesis
    by auto
qed

lemma fifo_scenario:
  fixes n1 n2 n3 n4 :: nat
  assumes s0: "status (game s0) = Active" "clueActive (game s0)" "resolve_delta s0 = Inr V0"
      "buzzer_locked (game s0)" "last_buzz_player_id (game s0) = Some H" "buzz_queue s0 = []"
    and pl: "A \<in> set (map p_id (players s0))" "B \<in> set (map p_id (players s0))"
      "C \<in> set (map p_id (players s0))" "A \<noteq> []" "B \<noteq> []" "C \<noteq> []"
    and d: "distinct [H, A, B, C]" "distinct [u1, u2, u3]"
    and t: "t1 < t2" "t2 < t3"
    and x: "x1 \<noteq> []" "x2 \<noteq> []" "x3 \<noteq> []" "x4 \<noteq> []"
  defines "q \<equiv> after_buzz C t3 u3 (after_buzz B t2 u2 (after_buzz A t1 u1 s0))"
  defines "r1 \<equiv> after_wrong x1 n1 q"
  defines "r2 \<equiv> after_wrong x2 n2 r1"
  defines "r3 \<equiv> after_wrong x3 n3 r2"
  defines "r4 \<equiv> after_wrong x4 n4 r3"
  shows "map b_player_id (buzz_queue q) = [A, B, C]
         \<and> map b_buzz_time (buzz_queue q) = [t1, t2, t3]
         \<and> buzzer_locked (game r1) \<and> last_buzz_player_id (game r1) = Some A
         \<and> last_buzz_time (game r1) = Some n1
         \<and> buzzer_locked (game r2) \<and> last_buzz_player_id (game r2) = Some B
         \<and> last_buzz_time (game r2) = Some n2
         \<and> buzzer_locked (game r3) \<and> last_buzz_player_id (game r3) = Some C
         \<and> last_buzz_time (game r3) = Some n3
         \<and> \<not> buzzer_locked (game r4) \<and> last_buzz_player_id (game r4) = None
         \<and> last_buzz_time (game r4) = None \<and> buzz_queue r4 = []
         \<and> clueActive (game r4)"
proof -
  let ?eA = "\<lparr>b_id = u1, b_player_id = A, b_buzz_time = t1\<rparr>"
  let ?eB = "\<lparr>b_id = u2, b_player_id = B, b_buzz_time = t2\<rparr>"
  let ?eC = "\<lparr>b_id = u3, b_player_id = C, b_buzz_time = t3\<rparr>"
  let ?lock = "\<lambda>P n. (game s0)\<lparr>buzzer_locked := True, last_buzz_player_id := Some P,
                                 last_buzz_time := Some n\<rparr>"
  have u: "u1 \<noteq> u2" "u1 \<noteq> u3" "u2 \<noteq> u3" "u2 \<noteq> u1" "u3 \<noteq> u1" "u3 \<noteq> u2"
    using d(2) by auto
  have q1: "after_buzz A t1 u1 s0 = s0\<lparr>buzz_queue := [?eA]\<rparr>"
    using buzz_enqueues [of A s0 u1 t1] s0 pl d by auto
  have q2: "after_buzz B t2 u2 (s0\<lparr>buzz_queue := [?eA]\<rparr>) = s0\<lparr>buzz_queue := [?eA, ?eB]\<rparr>"
    using buzz_enqueues [of B "s0\<lparr>buzz_queue := [?eA]\<rparr>" u2 t2] s0 pl d by auto
  have q3: "after_buzz C t3 u3 (s0\<lparr>buzz_queue := [?eA, ?eB]\<rparr>)
            = s0\<lparr>buzz_queue := [?eA, ?eB, ?eC]\<rparr>"
    using buzz_enqueues [of C "s0\<lparr>buzz_queue := [?eA, ?eB]\<rparr>" u3 t3] s0 pl d by auto
  have q: "q = s0\<lparr>buzz_queue := [?eA, ?eB, ?eC]\<rparr>"
    by (simp add: q_def q1 q2 q3)
  have delta: "resolve_delta s' = Inr V0"
    if "current_is_placeholder (game s') = current_is_placeholder (game s0)"
      "current_points (game s') = current_points (game s0)"
      "current_question_id (game s') = current_question_id (game s0)"
      "questions s' = questions s0" for s'
    using resolve_delta_frame [OF that] s0(3) by simp
  have active: "clueActive ((game s0)\<lparr>buzzer_locked := l, last_buzz_player_id := p,
                   last_buzz_time := n\<rparr>)" for l p n
    using s0(2) by (simp add: clueActive_def)
  have r1: "r1 = s0\<lparr>buzz_queue := [?eB, ?eC], game := ?lock A n1\<rparr>"
    unfolding r1_def after_wrong_def q
    using resolve_wrong_step [of x1 "s0\<lparr>buzz_queue := [?eA, ?eB, ?eC]\<rparr>" V0 n1]
      x s0(2) delta t u
    by simp
  have r2: "r2 = s0\<lparr>buzz_queue := [?eC], game := ?lock B n2\<rparr>"
    unfolding r2_def after_wrong_def r1
    using resolve_wrong_step
      [of x2 "s0\<lparr>buzz_queue := [?eB, ?eC], game := ?lock A n1\<rparr>" V0 n2]
      x active delta t u
    by simp
  have r3: "r3 = s0\<lparr>buzz_queue := [], game := ?lock C n3\<rparr>"
    unfolding r3_def after_wrong_def r2
    using resolve_wrong_step [of x3 "s0\<lparr>buzz_queue := [?eC], game := ?lock B n2\<rparr>" V0 n3]
      x active delta t u
    by simp
  have r4: "r4 = s0\<lparr>buzz_queue := [],
                    game := (game s0)\<lparr>buzzer_locked := False, last_buzz_player_id := None,
                                      last_buzz_time := None\<rparr>\<rparr>"
    unfolding r4_def after_wrong_def r3
    using resolve_wrong_step [of x4 "s0\<lparr>buzz_queue := [], game := ?lock C n3\<rparr>" V0 n4]
      x active delta t u
    by simp
  show ?thesis
    using active by (simp add: q r1 r2 r3 r4)
qed

text \<open>
  C5, as stated: for every state with an active clue and a locked buzzer, a resolution as
  wrong keeps the clue fields; with a non-empty queue it removes the entry with the
  smallest buzz time and re-locks to that player with a fresh \<open>lastBuzzTime\<close>, with an
  empty queue it unlocks the buzzer. This fails where the active clue is a real question
  whose catalog row is gone: the handler answers 404 \<^verbatim>\<open>Question not found\<close> before it
  reaches the queue. In the sample game, after Carol and her question are deleted, Alice
  keeps the lock and Bob stays queued however often Alice is resolved as wrong.
\<close>

theorem resolve_wrong_rejected_without_catalog_row:
  "reachable [] demo_dangling
   \<and> clueActive (game demo_dangling) \<and> buzzer_locked (game demo_dangling)
   \<and> last_buzz_player_id (game demo_dangling) = Some ''alice''
   \<and> buzz_queue demo_dangling = [\<lparr>b_id = ''b2'', b_player_id = ''bob'', b_buzz_time = 21\<rparr>]
   \<and> resolveCurrent (Some ''alice'') (Some False) 30 demo_dangling
       = (Inl (NotFound ''Question not found''), demo_dangling)"
  using demo_dangling_reachable
  by (simp add: demo_dangling_eq handler_defs)

text \<open>
  C5, amended: for every state with a locked buzzer and an active clue whose point value
  the handler can determine (a placeholder, or a real question whose catalog row still
  exists), a resolution of a non-empty \<open>playerId\<close> as wrong keeps the clue fields
  (question id, category, points, placeholder flag, text, answer) unchanged; if the queue
  is non-empty it removes the entry with the smallest buzz time and re-locks to that
  player with the time of the resolution as the fresh \<open>lastBuzzTime\<close>, and if the queue
  is empty it unlocks the buzzer. In particular, when the lock is held and the players
  \<open>A\<close>, \<open>B\<close>, \<open>C\<close> (none of them the holder) buzz at times \<open>t1 < t2 < t3\<close>, they are
  queued in that order, three consecutive wrong resolutions move the lock to \<open>A\<close>, then
  \<open>B\<close>, then \<open>C\<close>, and the next wrong resolution unlocks the buzzer with the clue still
  active. When the active clue is a real question whose catalog row no longer exists,
  the call fails with not-found (404) and neither the lock nor the queue moves.
\<close>

theorem resolve_wrong_advances_queue:
  fixes n1 n2 n3 n4 :: nat
  shows
    "(pid \<noteq> [] \<and> clueActive (game s) \<and> buzzer_locked (game s) \<and> resolve_delta s = Inr V \<longrightarrow>
        (\<exists>g' board s'.
           resolveCurrent (Some pid) (Some False) now s = (Inr (g', board), s')
           \<and> game s' = g'
           \<and> current_question_id g' = current_question_id (game s)
           \<and> current_category g' = current_category (game s)
           \<and> current_points g' = current_points (game s)
           \<and> current_is_placeholder g' = current_is_placeholder (game s)
           \<and> current_clue_text g' = current_clue_text (game s)
           \<and> current_answer_text g' = current_answer_text (game s)
           \<and> (buzz_queue s = [] \<longrightarrow>
                \<not> buzzer_locked g' \<and> last_buzz_player_id g' = None
                \<and> last_buzz_time g' = None \<and> buzz_queue s' = [])
           \<and> (buzz_queue s \<noteq> [] \<longrightarrow>
                (\<exists>next\<in>set (buzz_queue s).
                   (\<forall>b\<in>set (buzz_queue s). b_buzz_time next \<le> b_buzz_time b)
                   \<and> buzz_queue s' = filter (\<lambda>b. b_id b \<noteq> b_id next) (buzz_queue s)
                   \<and> next \<notin> set (buzz_queue s')
                   \<and> buzzer_locked g' \<and> last_buzz_player_id g' = Some (b_player_id next)
                   \<and> last_buzz_time g' = Some now))))
     \<and> (pid \<noteq> [] \<and> clueActive (game s) \<and> buzzer_locked (game s)
        \<and> \<not> current_is_placeholder (game s)
        \<and> (\<forall>q\<in>set (questions s). Some (q_id q) \<noteq> current_question_id (game s)) \<longrightarrow>
        resolveCurrent (Some pid) (Some False) now s
          = (Inl (NotFound ''Question not found''), s))
     \<and> (status (game s0) = Active \<and> clueActive (game s0) \<and> resolve_delta s0 = Inr V0
        \<and> buzzer_locked (game s0) \<and> last_buzz_player_id (game s0) = Some H
        \<and> buzz_queue s0 = []
        \<and> A \<in> set (map p_id (players s0)) \<and> B \<in> set (map p_id (players s0))
        \<and> C \<in> set (map p_id (players s0)) \<and> A \<noteq> [] \<and> B \<noteq> [] \<and> C \<noteq> []
        \<and> distinct [H, A, B, C] \<and> distinct [u1, u2, u3] \<and> t1 < t2 \<and> t2 < t3
        \<and> x1 \<noteq> [] \<and> x2 \<noteq> [] \<and> x3 \<noteq> [] \<and> x4 \<noteq> [] \<longrightarrow>
        (let q = after_buzz C t3 u3 (after_buzz B t2 u2 (after_buzz A t1 u1 s0));
             r1 = after_wrong x1 n1 q;
             r2 = after_wrong x2 n2 r1;
             r3 = after_wrong x3 n3 r2;
             r4 = after_wrong x4 n4 r3
         in map b_player_id (buzz_queue q) = [A, B, C]
            \<and> map b_buzz_time (buzz_queue q) = [t1, t2, t3]
            \<and> buzzer_locked (game r1) \<and> last_buzz_player_id (game r1) = Some A
            \<and> last_buzz_time (game r1) = Some n1
            \<and> buzzer_locked (game r2) \<and> last_buzz_player_id (game r2) = Some B
            \<and> last_buzz_time (game r2) = Some n2
            \<and> buzzer_locked (game r3) \<and> last_buzz_player_id (game r3) = Some C
            \<and> last_buzz_time (game r3) = Some n3
            \<and> \<not> buzzer_locked (game r4) \<and> last_buzz_player_id (game r4) = None
            \<and> last_buzz_time (game r4) = None \<and> buzz_queue r4 = []
            \<and> clueActive (game r4)))"
proof (intro conjI impI)
  assume "pid \<noteq> [] \<and> clueActive (game s) \<and> buzzer_locked (game s) \<and> resolve_delta s = Inr V"
  then show "\<exists>g' board s'.
           resolveCurrent (Some pid) (Some False) now s = (Inr (g', board), s')
           \<and> game s' = g'
           \<and> current_question_id g' = current_question_id (game s)
           \<and> current_category g' = current_category (game s)
           \<and> current_points g' = current_points (game s)
           \<and> current_is_placeholder g' = current_is_placeholder (game s)
           \<and> current_clue_text g' = current_clue_text (game s)
           \<and> current_answer_text g' = current_answer_text (game s)
           \<and> (buzz_queue s = [] \<longrightarrow>
                \<not> buzzer_locked g' \<and> last_buzz_player_id g' = None
                \<and> last_buzz_time g' = None \<and> buzz_queue s' = [])
           \<and> (buzz_queue s \<noteq> [] \<longrightarrow>
                (\<exists>next\<in>set (buzz_queue s).
                   (\<forall>b\<in>set (buzz_queue s). b_buzz_time next \<le> b_buzz_time b)
                   \<and> buzz_queue s' = filter (\<lambda>b. b_id b \<noteq> b_id next) (buzz_queue s)
                   \<and> next \<notin> set (buzz_queue s')
                   \<and> buzzer_locked g' \<and> last_buzz_player_id g' = Some (b_player_id next)
                   \<and> last_buzz_time g' = Some now))"
    using resolve_wrong_general [of pid s V now] by blast
next
  assume "pid \<noteq> [] \<and> clueActive (game s) \<and> buzzer_locked (game s)
        \<and> \<not> current_is_placeholder (game s)
        \<and> (\<forall>q\<in>set (questions s). Some (q_id q) \<noteq> current_question_id (game s))"
  then show "resolveCurrent (Some pid) (Some False) now s
          = (Inl (NotFound ''Question not found''), s)"
    using resolve_not_found [of pid s False now] by blast
next
  assume h: "status (game s0) = Active \<and> clueActive (game s0) \<and> resolve_delta s0 = Inr V0
        \<and> buzzer_locked (game s0) \<and> last_buzz_player_id (game s0) = Some H
        \<and> buzz_queue s0 = []
        \<and> A \<in> set (map p_id (players s0)) \<and> B \<in> set (map p_id (players s0))
        \<and> C \<in> set (map p_id (players s0)) \<and> A \<noteq> [] \<and> B \<noteq> [] \<and> C \<noteq> []
        \<and> distinct [H, A, B, C] \<and> distinct [u1, u2, u3] \<and> t1 < t2 \<and> t2 < t3
        \<and> x1 \<noteq> [] \<and> x2 \<noteq> [] \<and> x3 \<noteq> [] \<and> x4 \<noteq> []"
  have "map b_player_id
          (buzz_queue (after_buzz C t3 u3 (after_buzz B t2 u2 (after_buzz A t1 u1 s0))))
        = [A, B, C]
      \<and> map b_buzz_time
          (buzz_queue (after_buzz C t3 u3 (after_buzz B t2 u2 (after_buzz A t1 u1 s0))))
        = [t1, t2, t3]
      \<and> buzzer_locked (game (after_wrong x1 n1
          (after_buzz C t3 u3 (after_buzz B t2 u2 (after_buzz A t1 u1 s0)))))
      \<and> last_buzz_player_id (game (after_wrong x1 n1
          (after_buzz C t3 u3 (after_buzz B t2 u2 (after_buzz A t1 u1 s0))))) = Some A
      \<and> last_buzz_time (game (after_wrong x1 n1
          (after_buzz C t3 u3 (after_buzz B t2 u2 (after_buzz A t1 u1 s0))))) = Some n1
      \<and> buzzer_locked (game (after_wrong x2 n2 (after_wrong x1 n1
          (after_buzz C t3 u3 (after_buzz B t2 u2 (after_buzz A t1 u1 s0))))))
      \<and> last_buzz_player_id (game (after_wrong x2 n2 (after_wrong x1 n1
          (after_buzz C t3 u3 (after_buzz B t2 u2 (after_buzz A t1 u1 s0)))))) = Some B
      \<and> last_buzz_time (game (after_wrong x2 n2 (after_wrong x1 n1
          (after_buzz C t3 u3 (after_buzz B t2 u2 (after_buzz A t1 u1 s0)))))) = Some n2
      \<and> buzzer_locked (game (after_wrong x3 n3 (after_wrong x2 n2 (after_wrong x1 n1
          (after_buzz C t3 u3 (after_buzz B t2 u2 (after_buzz A t1 u1 s0)))))))
      \<and> last_buzz_player_id (game (after_wrong x3 n3 (after_wrong x2 n2 (after_wrong x1 n1
          (after_buzz C t3 u3 (after_buzz B t2 u2 (after_buzz A t1 u1 s0))))))) = Some C
      \<and> last_buzz_time (game (after_wrong x3 n3 (after_wrong x2 n2 (after_wrong x1 n1
          (after_buzz C t3 u3 (after_buzz B t2 u2 (after_buzz A t1 u1 s0))))))) = Some n3
      \<and> \<not> buzzer_locked (game (after_wrong x4 n4 (after_wrong x3 n3 (after_wrong x2 n2
          (after_wrong x1 n1
            (after_buzz C t3 u3 (after_buzz B t2 u2 (after_buzz A t1 u1 s0))))))))
      \<and> last_buzz_player_id (game (after_wrong x4 n4 (after_wrong x3 n3 (after_wrong x2 n2
          (after_wrong x1 n1
            (after_buzz C t3 u3 (after_buzz B t2 u2 (after_buzz A t1 u1 s0)))))))) = None
      \<and> last_buzz_time (game (after_wrong x4 n4 (after_wrong x3 n3 (after_wrong x2 n2
          (after_wrong x1 n1
            (after_buzz C t3 u3 (after_buzz B t2 u2 (after_buzz A t1 u1 s0)))))))) = None
      \<and> buzz_queue (after_wrong x4 n4 (after_wrong x3 n3 (after_wrong x2 n2
          (after_wrong x1 n1
            (after_buzz C t3 u3 (after_buzz B t2 u2 (after_buzz A t1 u1 s0))))))) = []
      \<and> clueActive (game (after_wrong x4 n4 (after_wrong x3 n3 (after_wrong x2 n2
          (after_wrong x1 n1
            (after_buzz C t3 u3 (after_buzz B t2 u2 (after_buzz A t1 u1 s0))))))))"
    by (rule fifo_scenario) (use h in auto)
  then show "let q = after_buzz C t3 u3 (after_buzz B t2 u2 (after_buzz A t1 u1 s0));
             r1 = after_wrong x1 n1 q;
             r2 = after_wrong x2 n2 r1;
             r3 = after_wrong x3 n3 r2;
             r4 = after_wrong x4 n4 r3
         in map b_player_id (buzz_queue q) = [A, B, C]
            \<and> map b_buzz_time (buzz_queue q) = [t1, t2, t3]
            \<and> buzzer_locked (game r1) \<and> last_buzz_player_id (game r1) = Some A
            \<and> last_buzz_time (game r1) = Some n1
            \<and> buzzer_locked (game r2) \<and> last_buzz_player_id (game r2) = Some B
            \<and> last_buzz_time (game r2) = Some n2
            \<and> buzzer_locked (game r3) \<and> last_buzz_player_id (game r3) = Some C
            \<and> last_buzz_time (game r3) = Some n3
            \<and> \<not> buzzer_locked (game r4) \<and> last_buzz_player_id (game r4) = None
            \<and> last_buzz_time (game r4) = None \<and> buzz_queue r4 = []
            \<and> clueActive (game r4)"
    unfolding Let_def .
qed

theorem resolve_wrong_advances_queue_witness:
  "(\<exists>g' board s'.
      resolveCurrent (Some ''alice'') (Some False) 30 demo_real_queued = (Inr (g', board), s')
      \<and> game s' = g' \<and> current_question_id g' = Some ''q1''
      \<and> buzzer_locked g' \<and> last_buzz_player_id g' = Some ''bob''
      \<and> last_buzz_time g' = Some 30 \<and> buzz_queue s' = [])
   \<and> (let q = after_buzz ''carol'' 23 ''b3''
                (after_buzz ''bob'' 22 ''b2'' (after_buzz ''alice'' 21 ''b1'' demo_dave_locked));
           r1 = after_wrong ''dave'' 31 q;
           r2 = after_wrong ''alice'' 32 r1;
           r3 = after_wrong ''bob'' 33 r2;
           r4 = after_wrong ''carol'' 34 r3
       in map b_player_id (buzz_queue q) = [''alice'', ''bob'', ''carol'']
          \<and> last_buzz_player_id (game r1) = Some ''alice''
          \<and> last_buzz_player_id (game r2) = Some ''bob''
          \<and> last_buzz_player_id (game r3) = Some ''carol''
          \<and> \<not> buzzer_locked (game r4) \<and> last_buzz_player_id (game r4) = None
          \<and> buzz_queue r4 = [] \<and> clueActive (game r4))
   \<and> clueActive (game demo_dangling) \<and> buzzer_locked (game demo_dangling)
   \<and> \<not> current_is_placeholder (game demo_dangling) \<and> questions demo_dangling = []
   \<and> resolveCurrent (Some ''bob'') (Some False) 35 demo_dangling
       = (Inl (NotFound ''Question not found''), demo_dangling)"
proof -
  note T = resolve_wrong_advances_queue
    [where pid = "''alice''" and s = demo_real_queued and V = 100 and now = 30
       and ?s0.0 = demo_dave_locked and ?V0.0 = 200 and H = "''dave''"
       and A = "''alice''" and B = "''bob''" and C = "''carol''"
       and ?u1.0 = "''b1''" and ?u2.0 = "''b2''" and ?u3.0 = "''b3''"
       and ?t1.0 = 21 and ?t2.0 = 22 and ?t3.0 = 23
       and ?x1.0 = "''dave''" and ?x2.0 = "''alice''" and ?x3.0 = "''bob''" and ?x4.0 = "''carol''"
       and ?n1.0 = 31 and ?n2.0 = 32 and ?n3.0 = 33 and ?n4.0 = 34]
  have g: "''alice'' \<noteq> [] \<and> clueActive (game demo_real_queued)
           \<and> buzzer_locked (game demo_real_queued) \<and> resolve_delta demo_real_queued = Inr 100"
    by (simp add: demo_real_queued_eq demo_real_eq sleigh_def resolve_delta_def
        getGameState_def clueActive_def truthy_def init_game_def)
  have f: "status (game demo_dave_locked) = Active \<and> clueActive (game demo_dave_locked)
        \<and> resolve_delta demo_dave_locked = Inr 200
        \<and> buzzer_locked (game demo_dave_locked)
        \<and> last_buzz_player_id (game demo_dave_locked) = Some ''dave''
        \<and> buzz_queue demo_dave_locked = []
        \<and> ''alice'' \<in> set (map p_id (players demo_dave_locked))
        \<and> ''bob'' \<in> set (map p_id (players demo_dave_locked))
        \<and> ''carol'' \<in> set (map p_id (players demo_dave_locked))
        \<and> ''alice'' \<noteq> [] \<and> ''bob'' \<noteq> [] \<and> ''carol'' \<noteq> []
        \<and> distinct [''dave'', ''alice'', ''bob'', ''carol'']
        \<and> distinct [''b1'', ''b2'', ''b3''] \<and> (21::nat) < 22 \<and> (22::nat) < 23
        \<and> ''dave'' \<noteq> [] \<and> ''alice'' \<noteq> [] \<and> ''bob'' \<noteq> [] \<and> ''carol'' \<noteq> []"
    by (simp add: demo_dave_locked_def demo_open_eq alice_def bob_def carol_def dave_def
        resolve_delta_def getGameState_def clueActive_def init_game_def)
  have q: "buzz_queue demo_real_queued
           = [\<lparr>b_id = ''b2'', b_player_id = ''bob'', b_buzz_time = 21\<rparr>]"
    "current_question_id (game demo_real_queued) = Some ''q1''"
    by (simp_all add: demo_real_queued_eq demo_real_eq)
  from T g q have first: "\<exists>g' board s'.
      resolveCurrent (Some ''alice'') (Some False) 30 demo_real_queued = (Inr (g', board), s')
      \<and> game s' = g' \<and> current_question_id g' = Some ''q1''
      \<and> buzzer_locked g' \<and> last_buzz_player_id g' = Some ''bob''
      \<and> last_buzz_time g' = Some 30 \<and> buzz_queue s' = []"
    by auto
  from T f have second: "let q = after_buzz ''carol'' 23 ''b3''
                (after_buzz ''bob'' 22 ''b2'' (after_buzz ''alice'' 21 ''b1'' demo_dave_locked));
           r1 = after_wrong ''dave'' 31 q;
           r2 = after_wrong ''alice'' 32 r1;
           r3 = after_wrong ''bob'' 33 r2;
           r4 = after_wrong ''carol'' 34 r3
       in map b_player_id (buzz_queue q) = [''alice'', ''bob'', ''carol'']
          \<and> last_buzz_player_id (game r1) = Some ''alice''
          \<and> last_buzz_player_id (game r2) = Some ''bob''
          \<and> last_buzz_player_id (game r3) = Some ''carol''
          \<and> \<not> buzzer_locked (game r4) \<and> last_buzz_player_id (game r4) = None
          \<and> buzz_queue r4 = [] \<and> clueActive (game r4)"
    unfolding Let_def by blast
  have d: "''bob'' \<noteq> [] \<and> clueActive (game demo_dangling) \<and> buzzer_locked (game demo_dangling)
        \<and> \<not> current_is_placeholder (game demo_dangling)
        \<and> (\<forall>q\<in>set (questions demo_dangling).
              Some (q_id q) \<noteq> current_question_id (game demo_dangling))"
    "questions demo_dangling = []"
    by (simp_all add: demo_dangling_eq clueActive_def truthy_def init_game_def)
  from resolve_wrong_advances_queue
    [where pid = "''bob''" and s = demo_dangling and now = 35, THEN conjunct2, THEN conjunct1]
    d(1)
  have third: "resolveCurrent (Some ''bob'') (Some False) 35 demo_dangling
       = (Inl (NotFound ''Question not found''), demo_dangling)"
    by (rule mp)
  from first second third d show ?thesis by blast
qed

subsection \<open>C6: resetting the board\<close>

lemma resetBoard_effect:
  "\<exists>g'. resetBoard s = (Inr g', s\<lparr>questions := map (\<lambda>q. q\<lparr>q_used_in_game := False\<rparr>) (questions s),
                                    game := g'\<rparr>)
        \<and> (\<forall>q\<in>set (questions (snd (resetBoard s))). \<not> q_used_in_game q)
        \<and> \<not> clueActive g' \<and> current_question_id g' = None \<and> current_category g' = None
        \<and> current_points g' = None \<and> \<not> current_is_placeholder g'
        \<and> current_clue_text g' = None \<and> current_answer_text g' = None
        \<and> \<not> buzzer_locked g' \<and> last_buzz_player_id g' = None \<and> last_buzz_time g' = None
        \<and> status g' = status (game s) \<and> turn_player_id g' = turn_player_id (game s)"
  by (simp add: resetBoard_def updateGameState_def clueActive_def truthy_def Let_def)

lemma resetBoard_keeps_buzz_queue: "buzz_queue (snd (resetBoard s)) = buzz_queue s"
  by (simp add: resetBoard_def updateGameState_def Let_def)

text \<open>
  C6: \<open>resetBoard\<close> sets every catalog entry's \<open>usedInGame\<close> to false, clears the active
  clue and the lock, and empties the buzz queue, leaving \<open>status\<close> and \<open>turnPlayerId\<close>
  as they are.

  All of it holds (\<open>resetBoard_effect\<close>) but the queue: \<^verbatim>\<open>POST /api/game/reset-board\<close>
  (lines 728 to 745) never calls \<^verbatim>\<open>clearBuzzQueue\<close>, so the queue survives
  (\<open>resetBoard_keeps_buzz_queue\<close>). The other handlers that clear the lock whatever the
  state is (select-card, start, reset, unlock-buzzer and the correct branch of
  resolve-current) all call \<^verbatim>\<open>clearBuzzQueue\<close> next to that patch. In the sample game,
  with Alice at the lock and Bob queued, Bob is still queued after the board is reset,
  on a board with no clue and an open buzzer.
\<close>

theorem resetBoard_leaves_queue:
  "buzz_queue demo_real_queued = [\<lparr>b_id = ''b2'', b_player_id = ''bob'', b_buzz_time = 21\<rparr>]
   \<and> buzz_queue (snd (resetBoard demo_real_queued))
       = [\<lparr>b_id = ''b2'', b_player_id = ''bob'', b_buzz_time = 21\<rparr>]
   \<and> \<not> clueActive (game (snd (resetBoard demo_real_queued)))
   \<and> \<not> buzzer_locked (game (snd (resetBoard demo_real_queued)))"
  by (simp add: demo_real_queued_eq demo_real_eq handler_defs)

subsection \<open>C7: picking an empty tile\<close>

lemma dropWhile_fixed: "xs = [] \<or> \<not> P (hd xs) \<Longrightarrow> dropWhile P xs = xs"
  by (cases xs) auto

lemma dropWhile_rev_dropWhile_rev:
  assumes "a = [] \<or> \<not> P (hd a)"
  shows "dropWhile P (rev (dropWhile P (rev a))) = rev (dropWhile P (rev a))"
proof (cases "rev (dropWhile P (rev a)) = []")
  case True
  show ?thesis by (simp only: True dropWhile.simps)
next
  case False
  have "rev (takeWhile P (rev a) @ dropWhile P (rev a)) = a"
    by (simp only: takeWhile_dropWhile_id rev_rev_ident)
  moreover have "rev (takeWhile P (rev a) @ dropWhile P (rev a))
                 = rev (dropWhile P (rev a)) @ rev (takeWhile P (rev a))"
    by (rule rev_append)
  ultimately have split: "a = rev (dropWhile P (rev a)) @ rev (takeWhile P (rev a))"
    by simp
  from False split have "hd a = hd (rev (dropWhile P (rev a)))"
    by (metis hd_append2)
  moreover from False split have "a \<noteq> []"
    by (metis Nil_is_append_conv)
  ultimately have "\<not> P (hd (rev (dropWhile P (rev a))))"
    using assms by metis
  with False show ?thesis
    by (intro dropWhile_fixed) blast
qed

lemma js_trim_idem: "js_trim (js_trim s) = js_trim s"
proof -
  have "dropWhile is_space s = [] \<or> \<not> is_space (hd (dropWhile is_space s))"
    using hd_dropWhile [of is_space s] by blast
  then have front: "dropWhile is_space (js_trim s) = js_trim s"
    unfolding js_trim_def by (rule dropWhile_rev_dropWhile_rev)
  have "js_trim (js_trim s) = rev (dropWhile is_space (rev (dropWhile is_space (js_trim s))))"
    by (simp only: js_trim_def)
  also have "\<dots> = rev (dropWhile is_space (rev (js_trim s)))"
    by (simp only: front)
  also have "\<dots> = js_trim s"
    by (simp add: js_trim_def dropWhile_idem)
  finally show ?thesis .
qed

lemma find_never: "(\<And>x. \<not> P x) \<Longrightarrow> find P xs = None"
  by (simp add: find_None_iff_set)

lemma findDefaultQuestion_tile:
  "findDefaultQuestion dqs
     (case category of None \<Rightarrow> None | Some c \<Rightarrow> if c = [] then None else Some (js_trim c))
     points
   = find (tile_matches category points) dqs"
proof (cases "\<exists>c pts. category = Some c \<and> points = Some pts \<and> js_trim c \<noteq> []")
  case True
  then obtain c pts where c: "category = Some c" "points = Some pts" "js_trim c \<noteq> []"
    by blast
  then have "c \<noteq> []" by (auto simp: js_trim_def)
  moreover have "tile_matches (Some c) (Some pts)
        = (\<lambda>q. js_toLowerCase (js_trim (dq_category q)) = js_toLowerCase (js_trim c)
                \<and> dq_points q = pts)"
    using c(3) by (simp add: tile_matches_def fun_eq_iff)
  ultimately show ?thesis
    using c by (simp add: findDefaultQuestion_def js_trim_idem Let_def)
next
  case False
  then have never: "\<not> tile_matches category points e" for e
    by (auto simp: tile_matches_def split: option.splits)
  have "findDefaultQuestion dqs
          (case category of None \<Rightarrow> None | Some c \<Rightarrow> if c = [] then None else Some (js_trim c))
          points = None"
    using False by (auto simp: findDefaultQuestion_def split: option.splits)
  with find_never [of "tile_matches category points" dqs] never show ?thesis
    by simp
qed

lemma olaf_matches: "tile_matches (sc_category empty_tile) (sc_points empty_tile) olaf"
  by (simp add: tile_matches_def empty_tile_def olaf_def js_trim_def js_toLowerCase_def
      lower_char_def is_space_def)

lemma blank_olaf_matches:
  "tile_matches (sc_category empty_tile) (sc_points empty_tile) blank_olaf"
  by (simp add: tile_matches_def empty_tile_def blank_olaf_def js_trim_def js_toLowerCase_def
      lower_char_def is_space_def)

text \<open>
  C7, as stated: a \<open>selectCard\<close> call without a question id that passes the conflict and
  turn checks activates a placeholder clue (placeholder flag set, no question id) that
  carries the clue text and answer of a default question matching the requested category
  and points when there is one, and the literal \<^verbatim>\<open>N/A\<close> for both otherwise; no catalog
  entry is marked used, and the queue and the lock are cleared. The first part fails for a
  matching entry whose text or answer is empty: \<^verbatim>\<open>fallback?.questionText || 'N/A'\<close>
  (lines 666 and 667) replaces an empty string by \<^verbatim>\<open>N/A\<close>, so the clue does not carry the
  entry's text.
\<close>

theorem selectCard_blank_default_text:
  "\<not> truthy (sc_questionId empty_tile)
   \<and> tile_matches (sc_category empty_tile) (sc_points empty_tile) blank_olaf
   \<and> dq_questionText blank_olaf = ''''
   \<and> map_sum id current_clue_text (fst (selectCard [blank_olaf] empty_tile demo_started))
       = Inr (Some ''N/A'')
   \<and> map_sum id current_answer_text (fst (selectCard [blank_olaf] empty_tile demo_started))
       = Inr (Some ''Olaf'')"
  using blank_olaf_matches
  by (simp add: demo_started_eq empty_tile_def blank_olaf_def handler_defs)

text \<open>
  C7, amended: for every \<open>selectCard\<close> call without a question id that passes the
  conflict and turn checks, the resulting state has an active placeholder clue
  (placeholder flag set, question id null). If the default pack contains an entry
  matching the requested category and points, the clue text and the answer are those of
  the first such entry, each replaced by the literal \<^verbatim>\<open>N/A\<close> when it is empty; if no
  entry matches, both are \<^verbatim>\<open>N/A\<close>. In either case the catalog is unchanged (no entry is
  marked used), the buzz queue is empty and the lock is cleared.
\<close>

theorem selectCard_empty_tile:
  assumes "\<not> truthy (sc_questionId r)"
    and "fst (selectCard dqs r s) \<noteq> Inl (Conflict ''A clue is already active'')"
    and "fst (selectCard dqs r s) \<noteq> Inl (Forbidden ''Not your turn'')"
  shows "\<exists>g s'. selectCard dqs r s = (Inr g, s') \<and> game s' = g
           \<and> clueActive g \<and> current_is_placeholder g \<and> current_question_id g = None
           \<and> (\<forall>e. find (tile_matches (sc_category r) (sc_points r)) dqs = Some e \<longrightarrow>
                  current_clue_text g = Some (or_NA (dq_questionText e))
                  \<and> current_answer_text g = Some (or_NA (dq_answer e)))
           \<and> ((\<forall>e\<in>set dqs. \<not> tile_matches (sc_category r) (sc_points r) e) \<longrightarrow>
                  current_clue_text g = Some ''N/A'' \<and> current_answer_text g = Some ''N/A'')
           \<and> questions s' = questions s \<and> buzz_queue s' = []
           \<and> \<not> buzzer_locked g \<and> last_buzz_player_id g = None \<and> last_buzz_time g = None"
proof -
  let ?cat = "case sc_category r of None \<Rightarrow> None
              | Some c \<Rightarrow> if c = [] then None else Some (js_trim c)"
  let ?fb = "find (tile_matches (sc_category r) (sc_points r)) dqs"
  let ?g = "(game s)\<lparr>current_question_id := None, current_category := ?cat,
               current_points := sc_points r, current_is_placeholder := True,
               current_clue_text :=
                 Some (case ?fb of None \<Rightarrow> ''N/A'' | Some f \<Rightarrow> or_NA (dq_questionText f)),
               current_answer_text :=
                 Some (case ?fb of None \<Rightarrow> ''N/A'' | Some f \<Rightarrow> or_NA (dq_answer f)),
               buzzer_locked := False, last_buzz_player_id := None,
               last_buzz_time := None\<rparr>"
  have c1: "\<not> (clueActive (game s) \<and> \<not> sc_force r)"
  proof
    assume "clueActive (game s) \<and> \<not> sc_force r"
    then have "selectCard dqs r s = (Inl (Conflict ''A clue is already active''), s)"
      by (simp add: selectCard_def getGameState_def Let_def)
    with assms(2) show False by simp
  qed
  have c2: "\<not> (truthy (turn_player_id (game s)) \<and> \<not> sc_force r
               \<and> (\<not> truthy (sc_pickerPlayerId r)
                    \<or> sc_pickerPlayerId r \<noteq> turn_player_id (game s)))"
  proof
    assume "truthy (turn_player_id (game s)) \<and> \<not> sc_force r
               \<and> (\<not> truthy (sc_pickerPlayerId r)
                    \<or> sc_pickerPlayerId r \<noteq> turn_player_id (game s))"
    with c1 have "selectCard dqs r s = (Inl (Forbidden ''Not your turn''), s)"
      by (simp add: selectCard_def getGameState_def Let_def)
    with assms(3) show False by simp
  qed
  have run: "selectCard dqs r s = (Inr ?g, s\<lparr>buzz_queue := [], game := ?g\<rparr>)"
    using assms(1) c1 c2 findDefaultQuestion_tile [of dqs "sc_category r" "sc_points r"]
    by (auto simp: selectCard_def getGameState_def updateGameState_def clearBuzzQueue_def
        Let_def)
  have none: "?fb = None" if "\<forall>e\<in>set dqs. \<not> tile_matches (sc_category r) (sc_points r) e"
    using that by (simp add: find_None_iff_set)
  have "clueActive ?g"
    by (simp add: clueActive_def)
  with run none show ?thesis
    by auto
qed

theorem selectCard_empty_tile_witness:
  "\<not> truthy (sc_questionId empty_tile)
   \<and> find (tile_matches (sc_category empty_tile) (sc_points empty_tile)) [olaf] = Some olaf
   \<and> (\<exists>g s'. selectCard [olaf] empty_tile demo_started = (Inr g, s') \<and> game s' = g
         \<and> current_is_placeholder g \<and> current_question_id g = None
         \<and> current_clue_text g = Some ''Which snowman in Frozen likes warm hugs?''
         \<and> current_answer_text g = Some ''Olaf''
         \<and> questions s' = questions demo_started \<and> buzz_queue s' = []
         \<and> \<not> buzzer_locked g)
   \<and> (\<exists>g s'. selectCard [] empty_tile demo_started = (Inr g, s') \<and> game s' = g
         \<and> current_is_placeholder g
         \<and> current_clue_text g = Some ''N/A'' \<and> current_answer_text g = Some ''N/A'')"
proof -
  have a: "\<not> truthy (sc_questionId empty_tile)"
    by (simp add: empty_tile_def truthy_def)
  have b: "fst (selectCard dqs empty_tile demo_started)
           \<noteq> Inl (Conflict ''A clue is already active'')"
    "fst (selectCard dqs empty_tile demo_started) \<noteq> Inl (Forbidden ''Not your turn'')"
    for dqs
    by (simp_all add: selectCard_def getGameState_def updateGameState_def clearBuzzQueue_def
        demo_started_eq empty_tile_def init_game_def clueActive_def truthy_def Let_def)
  have f: "find (tile_matches (sc_category empty_tile) (sc_points empty_tile)) [olaf]
           = Some olaf"
    using olaf_matches by simp
  have t: "or_NA (dq_questionText olaf) = ''Which snowman in Frozen likes warm hugs?''"
    "or_NA (dq_answer olaf) = ''Olaf''"
    by (simp_all add: olaf_def or_NA_def)
  from selectCard_empty_tile [OF a b, of "[olaf]"] f t
  have first: "\<exists>g s'. selectCard [olaf] empty_tile demo_started = (Inr g, s') \<and> game s' = g
         \<and> current_is_placeholder g \<and> current_question_id g = None
         \<and> current_clue_text g = Some ''Which snowman in Frozen likes warm hugs?''
         \<and> current_answer_text g = Some ''Olaf''
         \<and> questions s' = questions demo_started \<and> buzz_queue s' = []
         \<and> \<not> buzzer_locked g"
    by auto
  from selectCard_empty_tile [OF a b, of "[]"]
  have second: "\<exists>g s'. selectCard [] empty_tile demo_started = (Inr g, s') \<and> game s' = g
         \<and> current_is_placeholder g
         \<and> current_clue_text g = Some ''N/A'' \<and> current_answer_text g = Some ''N/A''"
    by auto
  from a f first second show ?thesis by blast
qed

subsection \<open>C8: turn enforcement\<close>

lemma demo_turn_eq:
  "demo_turn =
     \<lparr>game = init_game\<lparr>status := Active, turn_player_id := Some ''alice''\<rparr>, buzz_queue = [],
      players = [alice\<lparr>p_score := 200\<rparr>, bob, carol], questions = [sleigh]\<rparr>"
  by (simp add: demo_turn_def demo_locked_eq demo_open_eq alice_def bob_def carol_def
      handler_defs)

text \<open>
  C8: in a state where \<open>turnPlayerId = P\<close> is set and no clue is active, a \<open>selectCard\<close>
  call without \<open>force\<close> whose \<open>pickerPlayerId\<close> is absent or different from \<open>P\<close> fails
  with a permission error (403) and changes nothing, while the same call with
  \<open>pickerPlayerId = P\<close> and an otherwise valid tile succeeds and activates a clue.
\<close>

theorem turn_enforcement:
  assumes "turn_player_id (game s) = Some P" and "P \<noteq> []"
    and "\<not> clueActive (game s)" and "\<not> sc_force r" and "sc_pickerPlayerId r \<noteq> Some P"
  shows "selectCard dqs r s = (Inl (Forbidden ''Not your turn''), s)
         \<and> (valid_tile r s \<longrightarrow>
              (\<exists>g s'. selectCard dqs (r\<lparr>sc_pickerPlayerId := Some P\<rparr>) s = (Inr g, s')
                 \<and> game s' = g \<and> clueActive g))"
proof
  show "selectCard dqs r s = (Inl (Forbidden ''Not your turn''), s)"
    using assms
    by (auto simp: selectCard_def getGameState_def truthy_def Let_def split: option.splits)
next
  show "valid_tile r s \<longrightarrow>
          (\<exists>g s'. selectCard dqs (r\<lparr>sc_pickerPlayerId := Some P\<rparr>) s = (Inr g, s')
             \<and> game s' = g \<and> clueActive g)"
  proof
    assume v: "valid_tile r s"
    show "\<exists>g s'. selectCard dqs (r\<lparr>sc_pickerPlayerId := Some P\<rparr>) s = (Inr g, s')
            \<and> game s' = g \<and> clueActive g"
    proof (cases "truthy (sc_questionId r)")
      case False
      with assms show ?thesis
        by (simp add: selectCard_def getGameState_def updateGameState_def clearBuzzQueue_def
            clueActive_def truthy_def Let_def)
    next
      case True
      with v obtain q where
        q: "find (\<lambda>q. Some (q_id q) = sc_questionId r) (questions s) = Some q"
           "q_selected_for_game q" "\<not> q_used_in_game q"
        by (auto simp: valid_tile_def split: option.splits)
      with True assms show ?thesis
        by (simp add: selectCard_def getGameState_def updateGameState_def clearBuzzQueue_def
            clueActive_def truthy_def Let_def)
    qed
  qed
qed

theorem turn_enforcement_witness:
  "turn_player_id (game demo_turn) = Some ''alice'' \<and> \<not> clueActive (game demo_turn)
   \<and> \<not> sc_force empty_tile \<and> sc_pickerPlayerId empty_tile = None \<and> valid_tile empty_tile demo_turn
   \<and> selectCard [] empty_tile demo_turn = (Inl (Forbidden ''Not your turn''), demo_turn)
   \<and> (\<exists>g s'. selectCard [] (empty_tile\<lparr>sc_pickerPlayerId := Some ''alice''\<rparr>) demo_turn = (Inr g, s')
          \<and> game s' = g \<and> clueActive g)"
proof -
  have a: "turn_player_id (game demo_turn) = Some ''alice''" "''alice'' \<noteq> []"
    "\<not> clueActive (game demo_turn)" "\<not> sc_force empty_tile"
    "sc_pickerPlayerId empty_tile \<noteq> Some ''alice''"
    by (simp_all add: demo_turn_eq empty_tile_def init_game_def clueActive_def truthy_def)
  have v: "valid_tile empty_tile demo_turn" "sc_pickerPlayerId empty_tile = None"
    by (simp_all add: valid_tile_def empty_tile_def truthy_def)
  show ?thesis
    using turn_enforcement [OF a, of "[]"] a v
    by simp
qed

subsection \<open>C9: the resolved player is not looked up\<close>

lemma add_score_unknown_player:
  "playerId \<notin> set (map p_id (players s)) \<Longrightarrow> players (add_score d playerId s) = players s"
proof -
  assume "playerId \<notin> set (map p_id (players s))"
  then have "map (\<lambda>p. if p_id p = playerId then p\<lparr>p_score := p_score p + d\<rparr> else p) ps = ps"
    if "set ps \<subseteq> set (players s)" for ps
    using that by (induction ps) auto
  then show ?thesis
    by (simp add: add_score_def)
qed

text \<open>
  C9, as stated: \<open>resolve\<close> never checks that \<open>playerId\<close> names a player; for every state
  with an active clue and any \<open>playerId\<close> string, \<open>resolve(playerId, true)\<close> succeeds,
  clears the clue and hands the turn to that id, the score update touching no row when
  the id matches no player. Two guards of the handler stand against "every state" and
  "any string": the empty string is rejected as a missing \<^verbatim>\<open>playerId\<close> (400, line 908),
  and a real clue whose catalog row is gone is rejected with 404 (lines 921 to 926).
\<close>

theorem resolve_correct_rejects_empty_id_and_missing_row:
  "clueActive (game demo_locked)
   \<and> resolveCurrent (Some '''') (Some True) 30 demo_locked
       = (Inl (BadRequest ''playerId and correct are required''), demo_locked)
   \<and> clueActive (game demo_dangling)
   \<and> ''ghost'' \<notin> set (map p_id (players demo_dangling))
   \<and> resolveCurrent (Some ''ghost'') (Some True) 30 demo_dangling
       = (Inl (NotFound ''Question not found''), demo_dangling)"
  by (simp add: demo_dangling_eq demo_locked_eq demo_open_eq alice_def bob_def handler_defs)

lemma resolve_correct_any_id_effect:
  assumes "playerId \<noteq> []" and "clueActive (game s)" and "resolve_delta s = Inr V"
  shows "\<exists>g' board s'.
           resolveCurrent (Some playerId) (Some True) now s = (Inr (g', board), s')
           \<and> game s' = g' \<and> \<not> clueActive g' \<and> turn_player_id g' = Some playerId
           \<and> players s' = players (add_score V playerId s)
           \<and> (playerId \<notin> set (map p_id (players s)) \<longrightarrow> players s' = players s)"
proof -
  let ?g' = "(game s)\<lparr>current_question_id := None, current_category := None,
                current_points := None, current_is_placeholder := False,
                current_clue_text := None, current_answer_text := None,
                turn_player_id := Some playerId, buzzer_locked := False,
                last_buzz_player_id := None, last_buzz_time := None\<rparr>"
  let ?s' = "(clearBuzzQueue (add_score V playerId s))\<lparr>game := ?g'\<rparr>"
  have run: "resolveCurrent (Some playerId) (Some True) now s
             = (Inr (?g', scoreboard ?s'), ?s')"
    using assms
    by (auto simp: resolveCurrent_def updateGameState_def getGameState_def clueActive_def
        clearBuzzQueue_def add_score_def Let_def)
  have "\<not> clueActive ?g'"
    by (simp add: clueActive_def truthy_def)
  moreover have "players ?s' = players (add_score V playerId s)"
    by (simp add: clearBuzzQueue_def)
  moreover have "playerId \<notin> set (map p_id (players s)) \<longrightarrow> players ?s' = players s"
    using add_score_unknown_player [of playerId s V]
    by (simp add: clearBuzzQueue_def)
  ultimately show ?thesis
    using run by simp
qed

text \<open>
  C9, amended: \<open>resolve\<close> never checks that \<open>playerId\<close> names a player; for every state
  with an active clue whose point value the handler can determine (a placeholder, or a
  real question whose catalog row still exists) and any non-empty \<open>playerId\<close> string,
  whether or not it matches a player, \<open>resolve(playerId, true)\<close> succeeds, clears the
  clue and sets \<open>turnPlayerId\<close> to that id; when the id matches no player the roster,
  scores included, is unchanged. A missing or empty \<open>playerId\<close> is rejected as missing
  (400), and a real clue whose catalog row is gone is rejected with not-found (404); both
  rejections change nothing.
\<close>

theorem resolve_correct_any_player_id:
  assumes "clueActive (game s)"
  shows "(playerId \<noteq> [] \<and> resolve_delta s = Inr V \<longrightarrow>
            (\<exists>g' board s'.
               resolveCurrent (Some playerId) (Some True) now s = (Inr (g', board), s')
               \<and> game s' = g' \<and> \<not> clueActive g' \<and> turn_player_id g' = Some playerId
               \<and> players s' = players (add_score V playerId s)
               \<and> (playerId \<notin> set (map p_id (players s)) \<longrightarrow> players s' = players s)))
         \<and> resolveCurrent None (Some True) now s
               = (Inl (BadRequest ''playerId and correct are required''), s)
         \<and> resolveCurrent (Some []) (Some True) now s
               = (Inl (BadRequest ''playerId and correct are required''), s)
         \<and> (playerId \<noteq> [] \<and> \<not> current_is_placeholder (game s)
              \<and> (\<forall>q\<in>set (questions s). Some (q_id q) \<noteq> current_question_id (game s)) \<longrightarrow>
            resolveCurrent (Some playerId) (Some True) now s
              = (Inl (NotFound ''Question not found''), s))"
proof (intro conjI impI)
  assume "playerId \<noteq> [] \<and> resolve_delta s = Inr V"
  then show "\<exists>g' board s'.
               resolveCurrent (Some playerId) (Some True) now s = (Inr (g', board), s')
               \<and> game s' = g' \<and> \<not> clueActive g' \<and> turn_player_id g' = Some playerId
               \<and> players s' = players (add_score V playerId s)
               \<and> (playerId \<notin> set (map p_id (players s)) \<longrightarrow> players s' = players s)"
    using resolve_correct_any_id_effect [of playerId s V now] assms by blast
next
  show "resolveCurrent None (Some True) now s
          = (Inl (BadRequest ''playerId and correct are required''), s)"
    using resolve_missing_id [of "Some True" now s] by simp
next
  show "resolveCurrent (Some []) (Some True) now s
          = (Inl (BadRequest ''playerId and correct are required''), s)"
    using resolve_missing_id [of "Some True" now s] by simp
next
  assume "playerId \<noteq> [] \<and> \<not> current_is_placeholder (game s)
              \<and> (\<forall>q\<in>set (questions s). Some (q_id q) \<noteq> current_question_id (game s))"
  then show "resolveCurrent (Some playerId) (Some True) now s
              = (Inl (NotFound ''Question not found''), s)"
    using resolve_not_found [of playerId s True now] assms by blast
qed

theorem resolve_correct_any_player_id_witness:
  "''ghost'' \<notin> set (map p_id (players demo_locked)) \<and> clueActive (game demo_locked)
   \<and> resolve_delta demo_locked = Inr 200
   \<and> (\<exists>g' board s'.
         resolveCurrent (Some ''ghost'') (Some True) 30 demo_locked = (Inr (g', board), s')
         \<and> game s' = g' \<and> \<not> clueActive g' \<and> turn_player_id g' = Some ''ghost''
         \<and> players s' = players demo_locked)
   \<and> resolveCurrent (Some []) (Some True) 30 demo_locked
       = (Inl (BadRequest ''playerId and correct are required''), demo_locked)
   \<and> clueActive (game demo_dangling) \<and> \<not> current_is_placeholder (game demo_dangling)
   \<and> questions demo_dangling = []
   \<and> resolveCurrent (Some ''ghost'') (Some True) 31 demo_dangling
       = (Inl (NotFound ''Question not found''), demo_dangling)"
proof -
  have a: "clueActive (game demo_locked)"
    "''ghost'' \<noteq> [] \<and> resolve_delta demo_locked = Inr 200"
    by (simp_all add: demo_locked_eq demo_open_eq resolve_delta_def getGameState_def
        clueActive_def)
  have n: "''ghost'' \<notin> set (map p_id (players demo_locked))"
    by (simp add: demo_locked_eq demo_open_eq alice_def bob_def carol_def)
  note T = resolve_correct_any_player_id
    [OF a(1), where playerId = "''ghost''" and V = 200 and now = 30]
  from T [THEN conjunct1] a(2)
  have "\<exists>g' board s'.
           resolveCurrent (Some ''ghost'') (Some True) 30 demo_locked = (Inr (g', board), s')
           \<and> game s' = g' \<and> \<not> clueActive g' \<and> turn_player_id g' = Some ''ghost''
           \<and> players s' = players (add_score 200 ''ghost'' demo_locked)
           \<and> (''ghost'' \<notin> set (map p_id (players demo_locked)) \<longrightarrow>
                players s' = players demo_locked)"
    by (rule mp)
  with n have first: "\<exists>g' board s'.
         resolveCurrent (Some ''ghost'') (Some True) 30 demo_locked = (Inr (g', board), s')
         \<and> game s' = g' \<and> \<not> clueActive g' \<and> turn_player_id g' = Some ''ghost''
         \<and> players s' = players demo_locked"
    by blast
  have second: "resolveCurrent (Some []) (Some True) 30 demo_locked
       = (Inl (BadRequest ''playerId and correct are required''), demo_locked)"
    using T by blast
  have d: "clueActive (game demo_dangling)"
    "''ghost'' \<noteq> [] \<and> \<not> current_is_placeholder (game demo_dangling)
       \<and> (\<forall>q\<in>set (questions demo_dangling).
             Some (q_id q) \<noteq> current_question_id (game demo_dangling))"
    "\<not> current_is_placeholder (game demo_dangling)" "questions demo_dangling = []"
    by (simp_all add: demo_dangling_eq clueActive_def truthy_def init_game_def)
  from resolve_correct_any_player_id
    [OF d(1), where playerId = "''ghost''" and now = 31,
     THEN conjunct2, THEN conjunct2, THEN conjunct2] d(2)
  have third: "resolveCurrent (Some ''ghost'') (Some True) 31 demo_dangling
       = (Inl (NotFound ''Question not found''), demo_dangling)"
    by (rule mp)
  from a n first second d third show ?thesis by blast
qed

subsection \<open>C10: removing a player\<close>

text \<open>
  C10: deleting a player removes all of that player's buzz-queue entries; if the player
  held the lock, the buzzer is unlocked and \<open>lastBuzzPlayerId\<close> and \<open>lastBuzzTime\<close>
  are cleared; if the player held the turn, \<open>turnPlayerId\<close> is cleared. After the
  deletion neither \<open>lastBuzzPlayerId\<close> nor \<open>turnPlayerId\<close> nor any queue entry refers to
  the deleted player. The theorem also records what the deletion leaves alone: the
  entries of the other players, and the lock and the turn when they belong to someone
  else.
\<close>

theorem deletePlayer_clears_references:
  assumes "ident \<in> set (map p_id (players s))"
  shows "\<exists>s'. deletePlayer ident s = (Inr (), s')
           \<and> buzz_queue s' = filter (\<lambda>b. b_player_id b \<noteq> ident) (buzz_queue s)
           \<and> (\<forall>b\<in>set (buzz_queue s'). b_player_id b \<noteq> ident)
           \<and> (last_buzz_player_id (game s) = Some ident \<longrightarrow>
                \<not> buzzer_locked (game s') \<and> last_buzz_player_id (game s') = None
                \<and> last_buzz_time (game s') = None)
           \<and> (last_buzz_player_id (game s) \<noteq> Some ident \<longrightarrow>
                buzzer_locked (game s') = buzzer_locked (game s)
                \<and> last_buzz_player_id (game s') = last_buzz_player_id (game s)
                \<and> last_buzz_time (game s') = last_buzz_time (game s))
           \<and> (turn_player_id (game s) = Some ident \<longrightarrow> turn_player_id (game s') = None)
           \<and> (turn_player_id (game s) \<noteq> Some ident \<longrightarrow>
                turn_player_id (game s') = turn_player_id (game s))
           \<and> last_buzz_player_id (game s') \<noteq> Some ident
           \<and> turn_player_id (game s') \<noteq> Some ident
           \<and> ident \<notin> set (map p_id (players s'))"
proof -
  from assms obtain x where "x \<in> set (players s)" "p_id x = ident"
    by auto
  then obtain y where "find (\<lambda>p. p_id p = ident) (players s) = Some y"
    using find_in_set [of x "players s" "\<lambda>p. p_id p = ident"] by auto
  then show ?thesis
    by (auto simp: deletePlayer_def updateGameState_def getGameState_def Let_def)
qed

theorem deletePlayer_clears_references_witness:
  "''alice'' \<in> set (map p_id (players demo_real_queued))
   \<and> last_buzz_player_id (game demo_real_queued) = Some ''alice''
   \<and> (\<exists>s'. deletePlayer ''alice'' demo_real_queued = (Inr (), s')
         \<and> buzz_queue s' = [\<lparr>b_id = ''b2'', b_player_id = ''bob'', b_buzz_time = 21\<rparr>]
         \<and> \<not> buzzer_locked (game s') \<and> last_buzz_player_id (game s') = None
         \<and> last_buzz_time (game s') = None
         \<and> ''alice'' \<notin> set (map p_id (players s')))"
proof -
  have m: "''alice'' \<in> set (map p_id (players demo_real_queued))"
    by (simp add: demo_real_queued_eq demo_real_eq alice_def)
  have h: "last_buzz_player_id (game demo_real_queued) = Some ''alice''"
    by (simp add: demo_real_queued_eq)
  have q: "filter (\<lambda>b. b_player_id b \<noteq> ''alice'') (buzz_queue demo_real_queued)
           = [\<lparr>b_id = ''b2'', b_player_id = ''bob'', b_buzz_time = 21\<rparr>]"
    by (simp add: demo_real_queued_eq)
  from deletePlayer_clears_references [OF m] obtain s' where
    "deletePlayer ''alice'' demo_real_queued = (Inr (), s')"
    "buzz_queue s' = filter (\<lambda>b. b_player_id b \<noteq> ''alice'') (buzz_queue demo_real_queued)"
    "last_buzz_player_id (game demo_real_queued) = Some ''alice'' \<longrightarrow>
       \<not> buzzer_locked (game s') \<and> last_buzz_player_id (game s') = None
       \<and> last_buzz_time (game s') = None"
    "''alice'' \<notin> set (map p_id (players s'))"
    by blast
  with m h q show ?thesis by simp
qed

end
